theory Spec2Isabelle
  imports Main "HOL-Library.Char_ord" "HOL-Library.List_Lexorder"
begin

section \<open>Values, environment and errors\<close>

text \<open>
  The devices API server is a Go program built on gin (HTTP), gorm (database) and
  golang-jwt. This theory embeds its token service (\<open>serverutils\<close>), its middleware
  (\<open>server\<close>) and its resource handlers (\<open>handlers\<close>) as functions over an explicit
  request context and an explicit database value.

  Go's \<open>interface{}\<close> values that travel through JWT claim maps, JSON request bodies and
  the gin context are strings, numbers or nil.
\<close>

datatype anyval = VNil | VStr string | VNum int

type_synonym jsonmap = "(string \<times> anyval) list"

text \<open>Indexing a Go map with an absent key yields the nil interface.\<close>

definition lookup :: "jsonmap \<Rightarrow> string \<Rightarrow> anyval" where
  "lookup m k = (case map_of m k of None \<Rightarrow> VNil | Some v \<Rightarrow> v)"

text \<open>
  What the process reads from outside the repository's functions: the signing secret in
  the environment variable \<open>DEVICES_SERVER_JWT_SECRET\<close> (empty when unset), the
  package-level vocabularies \<open>roles\<close> and \<open>actions\<close> that \<open>IsValidRole\<close> and
  \<open>IsValidAction\<close> range over (declared in a file outside the sources at hand, so they
  are parameters), and the outcome of the uuid library's \<open>uuid.Parse\<close> (whether it
  returns without error).
\<close>

record env =
  JWT_SECRET :: string
  roles :: "string list"
  actions :: "string list"
  uuid_Parse_ok :: "string \<Rightarrow> bool"

text \<open>Times are Unix seconds.\<close>

type_synonym time = int

datatype error =
    ErrInvalidUserID
  | ErrInvalidUsername
  | ErrInvalidRole
  | ErrInvalidAction
  | ErrSecretNotSet
  | ErrTokenMalformed
  | ErrInvalidSigningMethod
  | ErrSignatureInvalid
  | ErrInvalidClaimType
  | ErrTokenExpired
  | ErrTokenNotValidYet
  | ErrRecordNotFound
  | ErrOther string

fun error_text :: "error \<Rightarrow> string" where
  "error_text ErrInvalidUserID = ''invalid user ID''"
| "error_text ErrInvalidUsername = ''invalid username''"
| "error_text ErrInvalidRole = ''invalid role''"
| "error_text ErrInvalidAction = ''invalid action''"
| "error_text ErrSecretNotSet = ''DEVICES_SERVER_JWT_SECRET is not set''"
| "error_text ErrTokenMalformed = ''token is malformed''"
| "error_text ErrInvalidSigningMethod = ''invalid signing method''"
| "error_text ErrSignatureInvalid = ''signature is invalid''"
| "error_text ErrInvalidClaimType = ''invalid type for claim''"
| "error_text ErrTokenExpired = ''token is expired''"
| "error_text ErrTokenNotValidYet = ''token is not valid yet''"
| "error_text ErrRecordNotFound = ''record not found''"
| "error_text (ErrOther s) = s"

section \<open>Token service (serverutils)\<close>

subsection \<open>Validators\<close>

definition IsValidUUID :: "env \<Rightarrow> string \<Rightarrow> bool" where
  "IsValidUUID e s = (if \<not> uuid_Parse_ok e s then False else True)"

text \<open>
  \<open>IsValidString\<close> matches the regular expression \<^verbatim>\<open>^[a-zA-Z0-9_ ]{3,20}$\<close>. Go's
  regexp anchors \<^verbatim>\<open>^\<close> and \<^verbatim>\<open>$\<close> at the two ends of the text, so the
  whole string consists of 3 to 20 characters of the class.
\<close>

definition in_name_class :: "char \<Rightarrow> bool" where
  "in_name_class c =
     ((CHR ''a'' \<le> c \<and> c \<le> CHR ''z'') \<or> (CHR ''A'' \<le> c \<and> c \<le> CHR ''Z'') \<or>
      (CHR ''0'' \<le> c \<and> c \<le> CHR ''9'') \<or> c = CHR ''_'' \<or> c = CHR '' '')"

definition IsValidString :: "string \<Rightarrow> bool" where
  "IsValidString s = (3 \<le> length s \<and> length s \<le> 20 \<and> list_all in_name_class s)"

text \<open>The range loops of \<open>IsValidRole\<close> and \<open>IsValidAction\<close>.\<close>

fun range_has :: "string list \<Rightarrow> string \<Rightarrow> bool" where
  "range_has [] x = False"
| "range_has (r # rs) x = (if r = x then True else range_has rs x)"

definition IsValidRole :: "env \<Rightarrow> string \<Rightarrow> bool" where
  "IsValidRole e role = range_has (roles e) role"

definition IsValidAction :: "env \<Rightarrow> string \<Rightarrow> bool" where
  "IsValidAction e action = range_has (actions e) action"

subsection \<open>Tokens\<close>

text \<open>
  The \<open>Claims\<close> struct of the token service. \<open>ExpiresAt\<close> stands for the embedded
  \<open>RegisteredClaims.ExpiresAt\<close>, the only registered claim the program ever sets.
\<close>

record Claims =
  UserID :: string
  Username :: string
  Role :: string
  Action :: string
  Issuer :: string
  IssuedAt :: int
  ExpiresAt :: "time option"

text \<open>
  JSON encoding of the claims: the six tagged fields, then \<open>exp\<close> unless it is nil
  (\<open>omitempty\<close>).
\<close>

definition marshal_Claims :: "Claims \<Rightarrow> jsonmap" where
  "marshal_Claims c =
     [(''user_id'', VStr (UserID c)), (''user_name'', VStr (Username c)),
      (''role'', VStr (Role c)), (''action'', VStr (Action c)),
      (''issuer'', VStr (Issuer c)), (''issued_at'', VNum (IssuedAt c))] @
     (case ExpiresAt c of None \<Rightarrow> [] | Some t \<Rightarrow> [(''exp'', VNum t)])"

text \<open>
  Token strings are modelled symbolically: a string is either the compact form of a JWT
  with a signing method, the key its signature was computed with, and its claims, or
  some other text (\<open>Raw\<close>, which includes the empty string). A signature verifies under
  exactly the key it was made with.
\<close>

datatype signing_method = HS256 | HS384 | HS512 | NonHMAC

datatype tokenstr = Raw string | Signed signing_method string jsonmap

definition GenerateJWT ::
  "env \<Rightarrow> time \<Rightarrow> string \<Rightarrow> string \<Rightarrow> string \<Rightarrow> string \<Rightarrow> bool \<Rightarrow> error + tokenstr" where
  "GenerateJWT e now userID username role action expire =
     (if \<not> IsValidUUID e userID then Inl ErrInvalidUserID
      else if \<not> IsValidString username then Inl ErrInvalidUsername
      else if \<not> IsValidRole e role then Inl ErrInvalidRole
      else if \<not> IsValidAction e action then Inl ErrInvalidAction
      else
        let claims = \<lparr>UserID = userID, Username = username, Role = role, Action = action,
                      Issuer = ''Rubicon BMS'', IssuedAt = now, ExpiresAt = None\<rparr>;
            claims = (if expire then claims\<lparr>ExpiresAt := Some (now + 24 * 3600 * 30)\<rparr>
                      else claims)
        in if JWT_SECRET e = [] then Inl ErrSecretNotSet
           else Inr (Signed HS256 (JWT_SECRET e) (marshal_Claims claims)))"

text \<open>
  The claims validation of \<open>jwt.Parse\<close> with default options: \<open>exp\<close> and \<open>nbf\<close> are
  checked when present, and must be numbers.
\<close>

definition validate_claims :: "time \<Rightarrow> jsonmap \<Rightarrow> error option" where
  "validate_claims now c =
     (case lookup c ''exp'' of
        VStr _ \<Rightarrow> Some ErrInvalidClaimType
      | VNum t \<Rightarrow> if now < t then
                    (case lookup c ''nbf'' of
                       VStr _ \<Rightarrow> Some ErrInvalidClaimType
                     | VNum b \<Rightarrow> if now < b then Some ErrTokenNotValidYet else None
                     | VNil \<Rightarrow> None)
                  else Some ErrTokenExpired
      | VNil \<Rightarrow>
          (case lookup c ''nbf'' of
             VStr _ \<Rightarrow> Some ErrInvalidClaimType
           | VNum b \<Rightarrow> if now < b then Some ErrTokenNotValidYet else None
           | VNil \<Rightarrow> None))"

definition ValidateJWT :: "env \<Rightarrow> time \<Rightarrow> tokenstr \<Rightarrow> error + jsonmap" where
  "ValidateJWT e now tokenStr =
     (case tokenStr of
        Raw s \<Rightarrow> Inl ErrTokenMalformed
      | Signed m k c \<Rightarrow>
          if m = NonHMAC then Inl ErrInvalidSigningMethod
          else if JWT_SECRET e = [] then Inl ErrSecretNotSet
          else if k \<noteq> JWT_SECRET e then Inl ErrSignatureInvalid
          else (case validate_claims now c of
                  Some err \<Rightarrow> Inl err
                | None \<Rightarrow> Inr c))"

section \<open>Persistence layer\<close>

text \<open>
  Modelled from the spec: the package \<open>pkg/db/models\<close> (the gorm models) is outside the
  sources at hand. The records below hold the fields the spec's data model names and the
  handlers read or write: a UUID identity, the natural key, the foreign key, the
  soft-delete marker (\<open>gorm.DeletedAt\<close>, \<open>None\<close> when not valid) and the two timestamps.
  UUIDs are kept in their canonical text form, the value of \<open>uuid.UUID.String()\<close>.
  An \<open>AuthToken\<close> row has no soft-delete marker: deleting it removes it.
\<close>

type_synonym uuid = string

record Customer =
  c_ID :: uuid
  c_Name :: string
  c_CreatedAt :: time
  c_UpdatedAt :: time
  c_DeletedAt :: "time option"

record Site =
  s_ID :: uuid
  s_Name :: string
  s_CustomerID :: uuid
  s_CreatedAt :: time
  s_UpdatedAt :: time
  s_DeletedAt :: "time option"

record Device =
  d_ID :: uuid
  d_SiteID :: uuid
  d_Gateway :: string
  d_Controller :: string
  d_ControllerSerialNumber :: string
  d_DeviceType :: string
  d_DeviceName :: string
  d_DeviceSerialNumber :: string
  d_BuildingURL :: string
  d_AuthToken :: string
  d_CreatedAt :: time
  d_UpdatedAt :: time
  d_DeletedAt :: "time option"

record AuthToken =
  t_ID :: uuid
  t_CustomerID :: uuid
  t_Action :: string
  t_Token :: tokenstr

text \<open>The database: one list of rows per table, in no particular order.\<close>

record db =
  customers :: "Customer list"
  sites :: "Site list"
  devices :: "Device list"
  auth_tokens :: "AuthToken list"

text \<open>
  \<open>devicesdb.GetDB()\<close> returns the process-wide instance or an error; the instance is
  carried next to the request.
\<close>

type_synonym db_instance = "error + db"

definition GetDB :: "db_instance \<Rightarrow> error + db" where
  "GetDB inst = inst"

text \<open>
  gorm's \<open>First\<close> runs \<^verbatim>\<open>SELECT ... WHERE cond ORDER BY id LIMIT 1\<close>: of the rows that
  satisfy the condition it returns the one with the least primary key, and
  \<open>ErrRecordNotFound\<close> when there is none. A query that is not \<open>Unscoped\<close> on a model
  with a soft-delete marker also requires \<^verbatim>\<open>deleted_at IS NULL\<close>; the callers below
  write that conjunct into \<open>cond\<close>.
\<close>

fun least_by :: "('a \<Rightarrow> string) \<Rightarrow> 'a \<Rightarrow> 'a list \<Rightarrow> 'a" where
  "least_by key m [] = m"
| "least_by key m (x # xs) = least_by key (if key x < key m then x else m) xs"

definition First :: "('a \<Rightarrow> string) \<Rightarrow> ('a \<Rightarrow> bool) \<Rightarrow> 'a list \<Rightarrow> error + 'a" where
  "First key cond rows =
     (case filter cond rows of
        [] \<Rightarrow> Inl ErrRecordNotFound
      | r # rs \<Rightarrow> Inr (least_by key r rs))"

text \<open>Zero values of the models; the zero UUID prints as \<open>uuid.Nil\<close>.\<close>

definition uuid_Nil :: uuid where
  "uuid_Nil = ''00000000-0000-0000-0000-000000000000''"

definition zero_Customer :: Customer where
  "zero_Customer = \<lparr>c_ID = uuid_Nil, c_Name = [], c_CreatedAt = 0, c_UpdatedAt = 0,
                     c_DeletedAt = None\<rparr>"

definition zero_Site :: Site where
  "zero_Site = \<lparr>s_ID = uuid_Nil, s_Name = [], s_CustomerID = uuid_Nil, s_CreatedAt = 0,
                 s_UpdatedAt = 0, s_DeletedAt = None\<rparr>"

definition zero_AuthToken :: AuthToken where
  "zero_AuthToken = \<lparr>t_ID = uuid_Nil, t_CustomerID = uuid_Nil, t_Action = [], t_Token = Raw []\<rparr>"

text \<open>
  A fetched \<open>Site\<close> carries its \<open>Customer\<close> association and a fetched \<open>Device\<close> its
  \<open>Site\<close> (with that site's \<open>Customer\<close>); an association that was not preloaded, or
  whose row the preload query did not find, is the zero value.
\<close>

record SiteLoaded =
  site_row :: Site
  site_Customer :: Customer

record DeviceLoaded =
  device_row :: Device
  device_Site :: SiteLoaded

text \<open>
  \<open>Preload\<close> fetches the associated row by its primary key; the preload query inherits
  the statement's \<open>Unscoped\<close> flag.
\<close>

definition preload_Customer :: "bool \<Rightarrow> db \<Rightarrow> uuid \<Rightarrow> Customer" where
  "preload_Customer unscoped bmsDB cid =
     (case First c_ID (\<lambda>c. (unscoped \<or> c_DeletedAt c = None) \<and> c_ID c = cid) (customers bmsDB) of
        Inl err \<Rightarrow> zero_Customer
      | Inr c \<Rightarrow> c)"

definition preload_Site_Customer :: "bool \<Rightarrow> db \<Rightarrow> uuid \<Rightarrow> SiteLoaded" where
  "preload_Site_Customer unscoped bmsDB sid =
     (case First s_ID (\<lambda>s. (unscoped \<or> s_DeletedAt s = None) \<and> s_ID s = sid) (sites bmsDB) of
        Inl err \<Rightarrow> \<lparr>site_row = zero_Site, site_Customer = zero_Customer\<rparr>
      | Inr s \<Rightarrow> \<lparr>site_row = s, site_Customer = preload_Customer unscoped bmsDB (s_CustomerID s)\<rparr>)"

subsection \<open>The fetch helpers of the handlers package\<close>

definition FetchCustomerByID :: "db \<Rightarrow> string \<Rightarrow> error + Customer" where
  "FetchCustomerByID bmsDB ident =
     (case First c_ID (\<lambda>c. c_DeletedAt c = None \<and> c_ID c = ident) (customers bmsDB) of
        Inl err \<Rightarrow> Inl err
      | Inr customer \<Rightarrow> Inr customer)"

definition FetchCustomerByName :: "db \<Rightarrow> string \<Rightarrow> error + Customer" where
  "FetchCustomerByName bmsDB name =
     (case First c_ID (\<lambda>c. c_Name c = name) (customers bmsDB) of
        Inl err \<Rightarrow> Inl err
      | Inr customer \<Rightarrow> Inr customer)"

definition FetchSiteByID :: "db \<Rightarrow> string \<Rightarrow> error + SiteLoaded" where
  "FetchSiteByID bmsDB ident =
     (case First s_ID (\<lambda>s. s_DeletedAt s = None \<and> s_ID s = ident) (sites bmsDB) of
        Inl err \<Rightarrow> Inl err
      | Inr s \<Rightarrow> Inr \<lparr>site_row = s, site_Customer = preload_Customer False bmsDB (s_CustomerID s)\<rparr>)"

definition FetchSiteByName :: "db \<Rightarrow> string \<Rightarrow> error + SiteLoaded" where
  "FetchSiteByName bmsDB name =
     (case First s_ID (\<lambda>s. s_Name s = name) (sites bmsDB) of
        Inl err \<Rightarrow> Inl err
      | Inr s \<Rightarrow> Inr \<lparr>site_row = s, site_Customer = zero_Customer\<rparr>)"

definition FetchDeviceBySerialNumber :: "db \<Rightarrow> string \<Rightarrow> error + DeviceLoaded" where
  "FetchDeviceBySerialNumber bmsDB serialNumber =
     (case First d_ID (\<lambda>d. d_DeviceSerialNumber d = serialNumber) (devices bmsDB) of
        Inl err \<Rightarrow> Inl err
      | Inr d \<Rightarrow> Inr \<lparr>device_row = d, device_Site = preload_Site_Customer True bmsDB (d_SiteID d)\<rparr>)"

section \<open>Responses and the request context\<close>

text \<open>The response structs of the handlers package.\<close>

record CustomerResponse =
  cr_ID :: uuid
  cr_Name :: string

record SiteResponse =
  sr_ID :: uuid
  sr_Name :: string
  sr_CustomerID :: uuid
  sr_CustomerName :: string

record DeviceResponse =
  dr_ID :: uuid
  dr_CustomerID :: uuid
  dr_CustomerName :: string
  dr_SiteID :: uuid
  dr_SiteName :: string
  dr_Gateway :: string
  dr_Controller :: string
  dr_ControllerSerialNumber :: string
  dr_DeviceType :: string
  dr_DeviceName :: string
  dr_DeviceSerialNumber :: string
  dr_BuildingURL :: string
  dr_AuthToken :: string

text \<open>
  What a handler passes as the \<open>data\<close> argument of \<open>WriteJSON\<close>: nil, a token string, one
  of the response structs, or an \<open>AuthToken\<close> row with its preloaded \<open>Customer\<close>.
\<close>

datatype payload =
    NoData
  | TokenData tokenstr
  | CustomerData CustomerResponse
  | SiteData SiteResponse
  | DeviceData DeviceResponse
  | AuthTokenData AuthToken Customer

text \<open>The \<open>Response\<close> struct of serverutils, the uniform envelope.\<close>

record Response =
  Status :: int
  Message :: string
  Data :: payload
  Error :: string

text \<open>
  A written HTTP response: the status code and the fields of the JSON object in the body
  (no fields when the body is empty).
\<close>

datatype jval = JNum int | JText string | JPayload payload

record reply =
  http_status :: int
  body_fields :: "(string \<times> jval) list"

text \<open>
  JSON encoding of the envelope: \<open>status\<close> always, the other three fields only when not
  empty (\<open>omitempty\<close>).
\<close>

definition marshal_Response :: "Response \<Rightarrow> (string \<times> jval) list" where
  "marshal_Response r =
     [(''status'', JNum (Status r))] @
     (if Message r = [] then [] else [(''message'', JText (Message r))]) @
     (if Data r = NoData then [] else [(''data'', JPayload (Data r))]) @
     (if Error r = [] then [] else [(''error'', JText (Error r))])"

text \<open>
  The gin context of one request, as far as the handlers use it: path parameters, request
  headers and cookies, the outcome of \<open>BindJSON\<close> into the handler's body struct (the
  error text, or the struct), the key/value store that middleware fills, the abort flag,
  the response written so far, the cookie set on the response, and the entries the
  request sent to the error logger.
\<close>

record 'b gin_ctx =
  Params :: "(string \<times> string) list"
  Headers :: "(string \<times> string) list"
  Cookies :: "(string \<times> tokenstr) list"
  Bound :: "string + 'b"
  Keys :: jsonmap
  aborted :: bool
  written :: "reply option"
  cookie_set :: "(string \<times> tokenstr) option"
  error_log :: "(string \<times> string) list"

datatype gin_error = ErrNoCookie

definition Param :: "'b gin_ctx \<Rightarrow> string \<Rightarrow> string" where
  "Param c k = (case map_of (Params c) k of None \<Rightarrow> [] | Some v \<Rightarrow> v)"

definition GetHeader :: "'b gin_ctx \<Rightarrow> string \<Rightarrow> string" where
  "GetHeader c k = (case map_of (Headers c) k of None \<Rightarrow> [] | Some v \<Rightarrow> v)"

definition Cookie :: "'b gin_ctx \<Rightarrow> string \<Rightarrow> gin_error + tokenstr" where
  "Cookie c k = (case map_of (Cookies c) k of None \<Rightarrow> Inl ErrNoCookie | Some v \<Rightarrow> Inr v)"

definition Set_key :: "'b gin_ctx \<Rightarrow> string \<Rightarrow> anyval \<Rightarrow> 'b gin_ctx" where
  "Set_key c k v = c\<lparr>Keys := (k, v) # Keys c\<rparr>"

text \<open>\<open>GetString\<close> is the empty string for an absent key and for a value that is not a string.\<close>

definition GetString :: "'b gin_ctx \<Rightarrow> string \<Rightarrow> string" where
  "GetString c k = (case lookup (Keys c) k of VStr s \<Rightarrow> s | VNum n \<Rightarrow> [] | VNil \<Rightarrow> [])"

definition Abort :: "'b gin_ctx \<Rightarrow> 'b gin_ctx" where
  "Abort c = c\<lparr>aborted := True\<rparr>"

text \<open>
  \<open>c.JSON\<close> writes the status and the object. Once the header has gone out (after
  \<open>AbortWithStatus\<close>) the status can no longer change, and the object is added to the body.
\<close>

definition JSON :: "'b gin_ctx \<Rightarrow> int \<Rightarrow> (string \<times> jval) list \<Rightarrow> 'b gin_ctx" where
  "JSON c status obj =
     (case written c of
        None \<Rightarrow> c\<lparr>written := Some \<lparr>http_status = status, body_fields = obj\<rparr>\<rparr>
      | Some r \<Rightarrow> c\<lparr>written := Some (r\<lparr>body_fields := body_fields r @ obj\<rparr>)\<rparr>)"

definition AbortWithStatus :: "'b gin_ctx \<Rightarrow> int \<Rightarrow> 'b gin_ctx" where
  "AbortWithStatus c status =
     Abort (case written c of
              None \<Rightarrow> c\<lparr>written := Some \<lparr>http_status = status, body_fields = []\<rparr>\<rparr>
            | Some r \<Rightarrow> c)"

text \<open>
  \<open>BindJSON\<close> decodes the body into the handler's struct; on a decoding error it aborts
  the request with status 400 and returns the error.
\<close>

definition BindJSON :: "'b gin_ctx \<Rightarrow> 'b gin_ctx \<times> (string + 'b)" where
  "BindJSON c =
     (case Bound c of
        Inl err \<Rightarrow> (AbortWithStatus c 400, Inl err)
      | Inr body \<Rightarrow> (c, Inr body))"

text \<open>
  A panic in a handler is caught by \<open>gin.Recovery\<close>, which aborts the request with status
  500 and an empty body.
\<close>

definition Recovery :: "'b gin_ctx \<Rightarrow> 'b gin_ctx" where
  "Recovery c = AbortWithStatus c 500"

definition WriteJSON :: "'b gin_ctx \<Rightarrow> int \<Rightarrow> string \<Rightarrow> payload \<Rightarrow> 'b gin_ctx" where
  "WriteJSON c status message data =
     (let response = \<lparr>Status = status, Message = message, Data = data, Error = []\<rparr>
      in JSON c status (marshal_Response response))"

definition WriteError :: "'b gin_ctx \<Rightarrow> int \<Rightarrow> string \<Rightarrow> string \<Rightarrow> 'b gin_ctx" where
  "WriteError c status message errMsg =
     (let response = \<lparr>Status = status, Message = message, Data = NoData, Error = errMsg\<rparr>;
          c = JSON c status (marshal_Response response)
      in c\<lparr>error_log := error_log c @ [(Message response, errMsg)]\<rparr>)"

text \<open>
  \<open>GetDBInstance\<close> answers 500 itself when there is no instance; the caller only returns.
\<close>

definition GetDBInstance :: "'b gin_ctx \<Rightarrow> db_instance \<Rightarrow> 'b gin_ctx + db" where
  "GetDBInstance c inst =
     (case GetDB inst of
        Inl err \<Rightarrow> Inl (WriteError c 500 ''Database error'' (error_text err))
      | Inr bmsDB \<Rightarrow> Inr bmsDB)"

section \<open>Middleware (server)\<close>

text \<open>
  A handler transforms the request context and the database instance. gin runs the
  handlers of a route in order and stops after one that aborted.
\<close>

type_synonym 'b state = "'b gin_ctx \<times> db_instance"

fun run_chain :: "('b state \<Rightarrow> 'b state) list \<Rightarrow> 'b state \<Rightarrow> 'b state" where
  "run_chain [] st = st"
| "run_chain (h # hs) st =
     (let st' = h st in if aborted (fst st') then st' else run_chain hs st')"

text \<open>The 401 of \<open>AdminMiddleware\<close> is a \<open>gin.H\<close> map with the two keys \<open>error\<close> and \<open>message\<close>.\<close>

definition AdminMiddleware :: "string \<Rightarrow> 'b state \<Rightarrow> 'b state" where
  "AdminMiddleware adminSecret st =
     (let (c, inst) = st; secret = GetHeader c ''Admin-Secret''
      in if secret \<noteq> adminSecret
         then (Abort (JSON c 401 [(''error'', JText ''Unauthorized''),
                                  (''message'', JText ''Invalid admin secret'')]), inst)
         else (c, inst))"

definition AdminOnlyMiddleware :: "'b state \<Rightarrow> 'b state" where
  "AdminOnlyMiddleware st =
     (let (c, inst) = st; role = GetString c ''role''
      in if role \<noteq> ''admin''
         then (Abort (WriteError c 403 ''Unauthorized'' ''Only admins can perform this action''), inst)
         else (c, inst))"

text \<open>
  The token lookup of \<open>AuthMiddleware\<close> ignores the query's error: when no row matches,
  \<open>token\<close> keeps its zero value. The two query arguments are claim values; a row matches
  when its \<open>customer_id\<close> and \<open>action\<close> columns equal them.
\<close>

definition First_AuthToken :: "db \<Rightarrow> (AuthToken \<Rightarrow> bool) \<Rightarrow> AuthToken" where
  "First_AuthToken bmsDB cond =
     (case First t_ID cond (auth_tokens bmsDB) of
        Inl err \<Rightarrow> zero_AuthToken
      | Inr t \<Rightarrow> t)"

definition AuthMiddleware :: "env \<Rightarrow> time \<Rightarrow> 'b state \<Rightarrow> 'b state" where
  "AuthMiddleware e now st =
     (let (c, inst) = st in
      case Cookie c ''Authorization'' of
        Inl err \<Rightarrow> (Abort (WriteError c 401 ''Unauthorized'' ''Please authenticate first''), inst)
      | Inr tokenString \<Rightarrow>
          (case ValidateJWT e now tokenString of
             Inl err \<Rightarrow> (Abort (WriteError c 401 ''Unauthorized'' ''Invalid token''), inst)
           | Inr claims \<Rightarrow>
               (case GetDB inst of
                  Inl err \<Rightarrow>
                    (Abort (WriteError c 500 ''Failed to get database instance'' (error_text err)), inst)
                | Inr bmsDB \<Rightarrow>
                    (case lookup claims ''role'' of
                       VNil \<Rightarrow> (Recovery c, inst)
                     | VNum n \<Rightarrow> (Recovery c, inst)
                     | VStr role \<Rightarrow>
                         if role \<noteq> ''admin'' \<and>
                            t_Token (First_AuthToken bmsDB
                              (\<lambda>t. VStr (t_CustomerID t) = lookup claims ''user_id'' \<and>
                                   VStr (t_Action t) = lookup claims ''action'')) = Raw []
                         then (Abort (WriteError c 401 ''Unauthorized'' ''Token not found''), inst)
                         else
                           let c = Set_key c ''customer_id'' (lookup claims ''user_id'');
                               c = Set_key c ''role'' (lookup claims ''role'');
                               c = Set_key c ''action'' (lookup claims ''action'')
                           in (c, inst)))))"

section \<open>Resource handlers (handlers)\<close>

text \<open>
  The writes of gorm. \<open>Create\<close> inserts the row with the identity it is given, both
  timestamps set to the current time and no delete marker; it fails when the primary key
  is taken. \<open>Save\<close> and \<open>Updates\<close> on an \<open>Unscoped\<close> statement rewrite the row with the
  struct's primary key and set \<open>updated_at\<close> to the current time. \<open>Delete\<close> on a model
  with a soft-delete marker sets the marker of the matching rows that are not yet
  deleted.
\<close>

definition Create_Customer :: "db \<Rightarrow> time \<Rightarrow> uuid \<Rightarrow> string \<Rightarrow> error + Customer \<times> db" where
  "Create_Customer bmsDB now fresh name =
     (if fresh \<in> set (map c_ID (customers bmsDB)) then Inl (ErrOther ''duplicate key'')
      else let row = \<lparr>c_ID = fresh, c_Name = name, c_CreatedAt = now, c_UpdatedAt = now,
                       c_DeletedAt = None\<rparr>
           in Inr (row, bmsDB\<lparr>customers := customers bmsDB @ [row]\<rparr>))"

definition Save_Customer :: "db \<Rightarrow> time \<Rightarrow> Customer \<Rightarrow> error + Customer \<times> db" where
  "Save_Customer bmsDB now customer =
     (let row = customer\<lparr>c_UpdatedAt := now\<rparr>
      in Inr (row, bmsDB\<lparr>customers :=
                map (\<lambda>r. if c_ID r = c_ID row then row else r) (customers bmsDB)\<rparr>))"

definition Delete_Customer_where_id :: "db \<Rightarrow> time \<Rightarrow> string \<Rightarrow> error + db" where
  "Delete_Customer_where_id bmsDB now ident =
     Inr (bmsDB\<lparr>customers :=
       map (\<lambda>r. if c_ID r = ident \<and> c_DeletedAt r = None then r\<lparr>c_DeletedAt := Some now\<rparr> else r)
         (customers bmsDB)\<rparr>)"

definition Create_Site :: "db \<Rightarrow> time \<Rightarrow> uuid \<Rightarrow> string \<Rightarrow> uuid \<Rightarrow> error + Site \<times> db" where
  "Create_Site bmsDB now fresh name customerID =
     (if fresh \<in> set (map s_ID (sites bmsDB)) then Inl (ErrOther ''duplicate key'')
      else let row = \<lparr>s_ID = fresh, s_Name = name, s_CustomerID = customerID, s_CreatedAt = now,
                       s_UpdatedAt = now, s_DeletedAt = None\<rparr>
           in Inr (row, bmsDB\<lparr>sites := sites bmsDB @ [row]\<rparr>))"

definition Save_Site :: "db \<Rightarrow> time \<Rightarrow> Site \<Rightarrow> error + Site \<times> db" where
  "Save_Site bmsDB now s =
     (let row = s\<lparr>s_UpdatedAt := now\<rparr>
      in Inr (row, bmsDB\<lparr>sites := map (\<lambda>r. if s_ID r = s_ID row then row else r) (sites bmsDB)\<rparr>))"

definition Create_Device :: "db \<Rightarrow> time \<Rightarrow> uuid \<Rightarrow> Device \<Rightarrow> error + Device \<times> db" where
  "Create_Device bmsDB now fresh newDevice =
     (if fresh \<in> set (map d_ID (devices bmsDB)) then Inl (ErrOther ''duplicate key'')
      else let row = newDevice\<lparr>d_ID := fresh, d_CreatedAt := now, d_UpdatedAt := now,
                                d_DeletedAt := None\<rparr>
           in Inr (row, bmsDB\<lparr>devices := devices bmsDB @ [row]\<rparr>))"

text \<open>
  The restore of a device updates only the selected columns \<open>deleted_at\<close>, \<open>created_at\<close>
  and \<open>updated_at\<close> of the row with the device's primary key.
\<close>

definition Update_Device_restore :: "db \<Rightarrow> time \<Rightarrow> Device \<Rightarrow> error + db" where
  "Update_Device_restore bmsDB now device =
     Inr (bmsDB\<lparr>devices :=
       map (\<lambda>r. if d_ID r = d_ID device
                then r\<lparr>d_DeletedAt := d_DeletedAt device, d_CreatedAt := d_CreatedAt device,
                       d_UpdatedAt := now\<rparr>
                else r)
         (devices bmsDB)\<rparr>)"

subsection \<open>Customers\<close>

record CustomerRequest =
  rq_Name :: string

definition CustomerCreate :: "time \<Rightarrow> uuid \<Rightarrow> CustomerRequest state \<Rightarrow> CustomerRequest state" where
  "CustomerCreate now fresh st =
     (let (c, inst) = st; (c, bound) = BindJSON c in
      case bound of
        Inl err \<Rightarrow> (WriteError c 400 ''Invalid request body'' ''Name field is required'', inst)
      | Inr body \<Rightarrow>
          if rq_Name body = []
          then (WriteError c 400 ''Invalid request body'' ''Name field is required'', inst)
          else
            (case GetDBInstance c inst of
               Inl c \<Rightarrow> (c, inst)
             | Inr bmsDB \<Rightarrow>
                 (case FetchCustomerByName bmsDB (rq_Name body) of
                    Inl err \<Rightarrow>
                      if err \<noteq> ErrRecordNotFound
                      then (WriteError c 500 ''Failed to fetch customer'' (error_text err), inst)
                      else
                        (case Create_Customer bmsDB now fresh (rq_Name body) of
                           Inl err \<Rightarrow>
                             (WriteError c 500 ''Failed to create customer'' (error_text err), inst)
                         | Inr (newCustomer, bmsDB) \<Rightarrow>
                             (WriteJSON c 201 ''Customer created''
                                (CustomerData \<lparr>cr_ID = c_ID newCustomer, cr_Name = c_Name newCustomer\<rparr>),
                              Inr bmsDB))
                  | Inr customer \<Rightarrow>
                      if c_DeletedAt customer \<noteq> None
                      then
                        (let customer = customer\<lparr>c_DeletedAt := None, c_CreatedAt := now,
                                                  c_UpdatedAt := now\<rparr>
                         in case Save_Customer bmsDB now customer of
                              Inl err \<Rightarrow>
                                (WriteError c 500 ''Failed to restore customer'' (error_text err), inst)
                            | Inr (customer, bmsDB) \<Rightarrow>
                                (WriteJSON c 200 ''Customer restored''
                                   (CustomerData \<lparr>cr_ID = c_ID customer, cr_Name = c_Name customer\<rparr>),
                                 Inr bmsDB))
                      else (WriteError c 400 ''Customer already exists''
                              ''A customer with this name already exists'', inst))))"

definition CustomerFetchByID :: "env \<Rightarrow> 'b state \<Rightarrow> 'b state" where
  "CustomerFetchByID e st =
     (let (c, inst) = st; ident = Param c ''customer_id'' in
      if \<not> IsValidUUID e ident
      then (WriteError c 400 ''Invalid customer ID'' ''Invalid UUID format'', inst)
      else
        let role = GetString c ''role''; requesterID = GetString c ''customer_id'' in
        if role \<noteq> ''admin'' \<and> requesterID \<noteq> ident
        then (WriteError c 403 ''Forbidden'' ''Unauthorized access'', inst)
        else
          (case GetDBInstance c inst of
             Inl c \<Rightarrow> (c, inst)
           | Inr bmsDB \<Rightarrow>
               (case FetchCustomerByID bmsDB ident of
                  Inl err \<Rightarrow>
                    if err = ErrRecordNotFound
                    then (WriteError c 404 ''Customer not found''
                            ''No customer found with the given ID'', inst)
                    else (WriteError c 500 ''Failed to fetch customer'' (error_text err), inst)
                | Inr customer \<Rightarrow>
                    (WriteJSON c 200 ''Customer fetched''
                       (CustomerData \<lparr>cr_ID = c_ID customer, cr_Name = c_Name customer\<rparr>), inst))))"

definition CustomerDelete :: "env \<Rightarrow> time \<Rightarrow> 'b state \<Rightarrow> 'b state" where
  "CustomerDelete e now st =
     (let (c, inst) = st; role = GetString c ''role'' in
      if role \<noteq> ''admin''
      then (WriteError c 403 ''Forbidden'' ''Unauthorized access'', inst)
      else
        let ident = Param c ''customer_id'' in
        if \<not> IsValidUUID e ident
        then (WriteError c 400 ''Invalid customer ID'' ''Invalid UUID format'', inst)
        else
          (case GetDBInstance c inst of
             Inl c \<Rightarrow> (c, inst)
           | Inr bmsDB \<Rightarrow>
               (case Delete_Customer_where_id bmsDB now ident of
                  Inl err \<Rightarrow> (WriteError c 500 ''Failed to delete customer'' (error_text err), inst)
                | Inr bmsDB \<Rightarrow> (WriteJSON c 200 ''Customer deleted'' NoData, Inr bmsDB))))"

subsection \<open>Sites\<close>

record SiteRequest =
  sq_Name :: string

definition SiteCreate :: "env \<Rightarrow> time \<Rightarrow> uuid \<Rightarrow> SiteRequest state \<Rightarrow> SiteRequest state" where
  "SiteCreate e now fresh st =
     (let (c, inst) = st; customerID = Param c ''customer_id'' in
      if \<not> IsValidUUID e customerID
      then (WriteError c 400 ''Invalid customer ID'' ''Invalid UUID format'', inst)
      else
        let (c, bound) = BindJSON c in
        case bound of
          Inl err \<Rightarrow> (WriteError c 400 ''Invalid request body'' ''Name field is required'', inst)
        | Inr body \<Rightarrow>
            if sq_Name body = []
            then (WriteError c 400 ''Invalid request body'' ''Name field is required'', inst)
            else
              (case GetDBInstance c inst of
                 Inl c \<Rightarrow> (c, inst)
               | Inr bmsDB \<Rightarrow>
                   (case FetchCustomerByID bmsDB customerID of
                      Inl err \<Rightarrow>
                        if err = ErrRecordNotFound
                        then (WriteError c 404 ''Customer not found''
                                ''No customer found with the given ID'', inst)
                        else (WriteError c 500 ''Failed to fetch customer'' (error_text err), inst)
                    | Inr customer \<Rightarrow>
                        (case FetchSiteByName bmsDB (sq_Name body) of
                           Inl err \<Rightarrow>
                             if err \<noteq> ErrRecordNotFound
                             then (WriteError c 500 ''Failed to fetch site'' (error_text err), inst)
                             else
                               (case Create_Site bmsDB now fresh (sq_Name body) (c_ID customer) of
                                  Inl err \<Rightarrow>
                                    (WriteError c 500 ''Failed to create site'' (error_text err), inst)
                                | Inr (newSite, bmsDB) \<Rightarrow>
                                    (WriteJSON c 200 ''Site created''
                                       (SiteData \<lparr>sr_ID = s_ID newSite, sr_Name = s_Name newSite,
                                                   sr_CustomerID = c_ID customer,
                                                   sr_CustomerName = c_Name customer\<rparr>),
                                     Inr bmsDB))
                         | Inr loaded \<Rightarrow>
                             if s_DeletedAt (site_row loaded) \<noteq> None
                             then
                               (let s = (site_row loaded)\<lparr>s_DeletedAt := None, s_CreatedAt := now,
                                                            s_UpdatedAt := now\<rparr>
                                in case Save_Site bmsDB now s of
                                     Inl err \<Rightarrow>
                                       (WriteError c 500 ''Failed to restore site'' (error_text err), inst)
                                   | Inr (s, bmsDB) \<Rightarrow>
                                       (WriteJSON c 200 ''Site restored''
                                          (SiteData \<lparr>sr_ID = s_ID s, sr_Name = s_Name s,
                                                      sr_CustomerID = c_ID customer,
                                                      sr_CustomerName = c_Name customer\<rparr>),
                                        Inr bmsDB))
                             else (WriteError c 400 ''Site already exists''
                                     ''A site with this name already exists'', inst)))))"

definition SiteFetchByID :: "env \<Rightarrow> 'b state \<Rightarrow> 'b state" where
  "SiteFetchByID e st =
     (let (c, inst) = st;
          role = GetString c ''role'';
          requesterID = GetString c ''user_id'';
          siteID = Param c ''site_id''
      in
      if \<not> IsValidUUID e siteID
      then (WriteError c 400 ''Invalid site ID'' ''Invalid UUID format'', inst)
      else
        (case GetDBInstance c inst of
           Inl c \<Rightarrow> (c, inst)
         | Inr bmsDB \<Rightarrow>
             (case FetchSiteByID bmsDB siteID of
                Inl err \<Rightarrow>
                  if err = ErrRecordNotFound
                  then (WriteError c 404 ''Site not found'' ''No site found with the given ID'', inst)
                  else (WriteError c 500 ''Failed to fetch site'' (error_text err), inst)
              | Inr loaded \<Rightarrow>
                  (case FetchCustomerByID bmsDB (s_CustomerID (site_row loaded)) of
                     Inl err \<Rightarrow>
                       if err = ErrRecordNotFound
                       then (WriteError c 404 ''Customer not found''
                               ''No customer found with the given ID'', inst)
                       else (WriteError c 500 ''Failed to fetch customer'' (error_text err), inst)
                   | Inr customer \<Rightarrow>
                       if role \<noteq> ''admin'' \<and> requesterID \<noteq> c_ID customer
                       then (WriteError c 403 ''Forbidden''
                               ''You are not authorized to access this site'', inst)
                       else
                         (WriteJSON c 200 ''Site fetched''
                            (SiteData \<lparr>sr_ID = s_ID (site_row loaded),
                                        sr_Name = s_Name (site_row loaded),
                                        sr_CustomerID = c_ID customer,
                                        sr_CustomerName = c_Name customer\<rparr>), inst)))))"

subsection \<open>Devices\<close>

record DeviceRequest =
  dq_Gateway :: string
  dq_Controller :: string
  dq_ControllerSerialNumber :: string
  dq_DeviceType :: string
  dq_DeviceName :: string
  dq_DeviceSerialNumber :: string
  dq_BuildingURL :: string
  dq_AuthToken :: string

definition device_response :: "Device \<Rightarrow> Customer \<Rightarrow> Site \<Rightarrow> DeviceResponse" where
  "device_response d customer s =
     \<lparr>dr_ID = d_ID d, dr_CustomerID = c_ID customer, dr_CustomerName = c_Name customer,
      dr_SiteID = s_ID s, dr_SiteName = s_Name s, dr_Gateway = d_Gateway d,
      dr_Controller = d_Controller d, dr_ControllerSerialNumber = d_ControllerSerialNumber d,
      dr_DeviceType = d_DeviceType d, dr_DeviceName = d_DeviceName d,
      dr_DeviceSerialNumber = d_DeviceSerialNumber d, dr_BuildingURL = d_BuildingURL d,
      dr_AuthToken = d_AuthToken d\<rparr>"

definition DeviceCreate :: "env \<Rightarrow> time \<Rightarrow> uuid \<Rightarrow> DeviceRequest state \<Rightarrow> DeviceRequest state" where
  "DeviceCreate e now fresh st =
     (let (c, inst) = st; (c, bound) = BindJSON c in
      case bound of
        Inl err \<Rightarrow> (WriteError c 400 ''Invalid request body'' ''Invalid JSON format'', inst)
      | Inr body \<Rightarrow>
          let customerID = Param c ''customer_id''; siteID = Param c ''site_id'' in
          if \<not> IsValidUUID e customerID
          then (WriteError c 400 ''Invalid customer ID'' ''Invalid UUID format'', inst)
          else if \<not> IsValidUUID e siteID
          then (WriteError c 400 ''Invalid site ID'' ''Invalid UUID format'', inst)
          else
            (case GetDBInstance c inst of
               Inl c \<Rightarrow> (c, inst)
             | Inr bmsDB \<Rightarrow>
                 (case FetchCustomerByID bmsDB customerID of
                    Inl err \<Rightarrow>
                      if err = ErrRecordNotFound
                      then (WriteError c 404 ''Customer not found''
                              ''No customer found with the given ID'', inst)
                      else (WriteError c 500 ''Database error'' (error_text err), inst)
                  | Inr customer \<Rightarrow>
                      (case FetchSiteByID bmsDB siteID of
                         Inl err \<Rightarrow>
                           if err = ErrRecordNotFound
                           then (WriteError c 404 ''Site not found''
                                   ''No site found with the given ID'', inst)
                           else (WriteError c 500 ''Database error'' (error_text err), inst)
                       | Inr loaded \<Rightarrow>
                           let s = site_row loaded in
                           if s_CustomerID s \<noteq> c_ID customer
                           then (WriteError c 403 ''Forbidden''
                                   ''There is no site with the given ID for the given customer'', inst)
                           else
                             (case FetchDeviceBySerialNumber bmsDB (dq_DeviceSerialNumber body) of
                                Inl err \<Rightarrow>
                                  if err \<noteq> ErrRecordNotFound
                                  then (WriteError c 500 ''Database error'' (error_text err), inst)
                                  else
                                    (let newDevice =
                                           \<lparr>d_ID = uuid_Nil, d_SiteID = s_ID s,
                                            d_Gateway = dq_Gateway body,
                                            d_Controller = dq_Controller body,
                                            d_ControllerSerialNumber = dq_ControllerSerialNumber body,
                                            d_DeviceType = dq_DeviceType body,
                                            d_DeviceName = dq_DeviceName body,
                                            d_DeviceSerialNumber = dq_DeviceSerialNumber body,
                                            d_BuildingURL = dq_BuildingURL body,
                                            d_AuthToken = dq_AuthToken body,
                                            d_CreatedAt = 0, d_UpdatedAt = 0, d_DeletedAt = None\<rparr>
                                     in case Create_Device bmsDB now fresh newDevice of
                                          Inl err \<Rightarrow>
                                            (WriteError c 500 ''Failed to create device''
                                               (error_text err), inst)
                                        | Inr (newDevice, bmsDB) \<Rightarrow>
                                            (WriteJSON c 200 ''Device created''
                                               (DeviceData (device_response newDevice customer s)),
                                             Inr bmsDB))
                              | Inr found \<Rightarrow>
                                  if d_DeletedAt (device_row found) \<noteq> None
                                  then
                                    (let device = (device_row found)
                                           \<lparr>d_DeletedAt := None, d_CreatedAt := now, d_UpdatedAt := now\<rparr>
                                     in case Update_Device_restore bmsDB now device of
                                          Inl err \<Rightarrow>
                                            (WriteError c 500 ''Failed to restore device''
                                               (error_text err), inst)
                                        | Inr bmsDB \<Rightarrow>
                                            (WriteJSON c 200 ''Device restored''
                                               (DeviceData (device_response device customer s)),
                                             Inr bmsDB))
                                  else (WriteError c 400 ''Device already exists''
                                          ''A device with this serial number already exists'', inst))))))"

text \<open>
  In \<open>DeviceFetchBySerialNumber\<close> only \<open>ErrRecordNotFound\<close> is handled; after any other
  error \<open>device\<close> is nil and the handler panics on its first field access.
\<close>

definition DeviceFetchBySerialNumber :: "'b state \<Rightarrow> 'b state" where
  "DeviceFetchBySerialNumber st =
     (let (c, inst) = st;
          role = GetString c ''role'';
          requesterID = GetString c ''user_id'';
          serialNumber = Param c ''device_serial_number''
      in
      case GetDBInstance c inst of
        Inl c \<Rightarrow> (c, inst)
      | Inr bmsDB \<Rightarrow>
          (case FetchDeviceBySerialNumber bmsDB serialNumber of
             Inl err \<Rightarrow>
               if err = ErrRecordNotFound
               then (WriteError c 404 ''Device not found''
                       ''No device found with the given serial number'', inst)
               else (Recovery c, inst)
           | Inr device \<Rightarrow>
               if role \<noteq> ''admin'' \<and> c_ID (site_Customer (device_Site device)) \<noteq> requesterID
               then (WriteError c 403 ''Forbidden''
                       ''You are not authorized to access this customer's devices'', inst)
               else
                 (WriteJSON c 200 ''Device fetched''
                    (DeviceData (device_response (device_row device)
                       (site_Customer (device_Site device)) (site_row (device_Site device)))),
                  inst)))"

subsection \<open>Authentication and token issuance\<close>

record AuthenticateRequest =
  aq_Token :: tokenstr

definition SetCookie :: "'b gin_ctx \<Rightarrow> string \<Rightarrow> tokenstr \<Rightarrow> 'b gin_ctx" where
  "SetCookie c name v = c\<lparr>cookie_set := Some (name, v)\<rparr>"

definition AuthenticateHandler ::
  "env \<Rightarrow> time \<Rightarrow> AuthenticateRequest state \<Rightarrow> AuthenticateRequest state" where
  "AuthenticateHandler e now st =
     (let (c, inst) = st; (c, bound) = BindJSON c in
      case bound of
        Inl err \<Rightarrow> (WriteError c 400 ''Invalid request body'' err, inst)
      | Inr body \<Rightarrow>
          if aq_Token body = Raw []
          then (WriteError c 400 ''Invalid request body'' ''Token field is required'', inst)
          else
            (case ValidateJWT e now (aq_Token body) of
               Inl err \<Rightarrow> (WriteError c 401 ''Invalid token'' (error_text err), inst)
             | Inr claims \<Rightarrow>
                 (case GetDB inst of
                    Inl err \<Rightarrow>
                      (WriteError c 500 ''Failed to get database instance'' (error_text err), inst)
                  | Inr bmsDB \<Rightarrow>
                      (case lookup claims ''role'' of
                         VNil \<Rightarrow> (Recovery c, inst)
                       | VNum n \<Rightarrow> (Recovery c, inst)
                       | VStr role \<Rightarrow>
                           if role \<noteq> ''admin'' \<and>
                              t_Token (First_AuthToken bmsDB (\<lambda>t. t_Token t = aq_Token body)) = Raw []
                           then (WriteError c 401 ''Invalid token'' ''Token not found'', inst)
                           else
                             let c = SetCookie c ''Authorization'' (aq_Token body)
                             in (WriteJSON c 200 ''Token validated'' NoData, inst)))))"

text \<open>\<open>GenerateID\<close> draws a new random UUID; the drawn value is an argument.\<close>

definition GenerateAdminTokenHandler :: "env \<Rightarrow> time \<Rightarrow> uuid \<Rightarrow> 'b state \<Rightarrow> 'b state" where
  "GenerateAdminTokenHandler e now fresh st =
     (let (c, inst) = st; userID = fresh in
      case GenerateJWT e now userID ''Admin'' ''admin'' ''ADMIN'' False of
        Inl err \<Rightarrow> (WriteError c 500 ''Failed to generate token'' (error_text err), inst)
      | Inr token \<Rightarrow> (WriteJSON c 200 ''Token generated successfully'' (TokenData token), inst))"

record TokenRequest =
  tq_CustomerID :: string
  tq_Action :: string

definition Create_AuthToken ::
  "db \<Rightarrow> uuid \<Rightarrow> uuid \<Rightarrow> string \<Rightarrow> tokenstr \<Rightarrow> error + AuthToken \<times> db" where
  "Create_AuthToken bmsDB fresh customerID action token =
     (if fresh \<in> set (map t_ID (auth_tokens bmsDB)) then Inl (ErrOther ''duplicate key'')
      else let row = \<lparr>t_ID = fresh, t_CustomerID = customerID, t_Action = action, t_Token = token\<rparr>
           in Inr (row, bmsDB\<lparr>auth_tokens := auth_tokens bmsDB @ [row]\<rparr>))"

definition GenerateTokenHandler ::
  "env \<Rightarrow> time \<Rightarrow> uuid \<Rightarrow> TokenRequest state \<Rightarrow> TokenRequest state" where
  "GenerateTokenHandler e now fresh st =
     (let (c, inst) = st; (c, bound) = BindJSON c in
      case bound of
        Inl err \<Rightarrow> (WriteError c 400 ''Invalid request body'' err, inst)
      | Inr body \<Rightarrow>
          if tq_CustomerID body = []
          then (WriteError c 400 ''Invalid request body'' ''Customer ID field is required'', inst)
          else if \<not> IsValidUUID e (tq_CustomerID body)
          then (WriteError c 400 ''Invalid request body'' ''Invalid Customer ID'', inst)
          else if tq_Action body = []
          then (WriteError c 400 ''Invalid request body'' ''Action field is required'', inst)
          else if \<not> IsValidAction e (tq_Action body)
          then (WriteError c 400 ''Invalid request body'' ''Action not allowed'', inst)
          else
            (case GetDB inst of
               Inl err \<Rightarrow>
                 (WriteError c 500 ''Failed to get database instance'' (error_text err), inst)
             | Inr bmsDB \<Rightarrow>
                 (case First c_ID (\<lambda>r. c_DeletedAt r = None \<and> c_ID r = tq_CustomerID body)
                         (customers bmsDB) of
                    Inl err \<Rightarrow>
                      if err = ErrRecordNotFound
                      then (WriteError c 404 ''Customer not found'' ''Customer does not exist'', inst)
                      else (WriteError c 500 ''Database error'' (error_text err), inst)
                  | Inr customer \<Rightarrow>
                      (case GenerateJWT e now (tq_CustomerID body) (c_Name customer) ''user''
                              (tq_Action body) False of
                         Inl err \<Rightarrow>
                           (WriteError c 500 ''Failed to generate token'' (error_text err), inst)
                       | Inr token \<Rightarrow>
                           (case Create_AuthToken bmsDB fresh (c_ID customer) (tq_Action body) token of
                              Inl err \<Rightarrow>
                                (WriteError c 500 ''Failed to save token'' (error_text err), inst)
                            | Inr (authToken, bmsDB) \<Rightarrow>
                                (case First t_ID (\<lambda>t. t_ID t = t_ID authToken) (auth_tokens bmsDB) of
                                   Inl err \<Rightarrow>
                                     (WriteError c 500 ''Failed to fetch token details''
                                        (error_text err), Inr bmsDB)
                                 | Inr authToken \<Rightarrow>
                                     (WriteJSON c 200 ''Token generated successfully''
                                        (AuthTokenData authToken
                                           (preload_Customer False bmsDB (t_CustomerID authToken))),
                                      Inr bmsDB)))))))"

section \<open>Observing a response\<close>

text \<open>
  The token a 200 response of a token-issuance endpoint carries in its \<open>data\<close> field: the
  token string itself, or the \<open>Token\<close> column of the returned \<open>AuthToken\<close> row.
\<close>

definition issued_token :: "reply option \<Rightarrow> tokenstr option" where
  "issued_token w =
     (case w of
        None \<Rightarrow> None
      | Some r \<Rightarrow>
          if http_status r \<noteq> 200 then None
          else (case map_of (body_fields r) ''data'' of
                  Some (JPayload (TokenData tok)) \<Rightarrow> Some tok
                | Some (JPayload (AuthTokenData authToken customer)) \<Rightarrow> Some (t_Token authToken)
                | _ \<Rightarrow> None))"

section \<open>Example data\<close>

text \<open>
  A concrete environment, database and requests, on which the theorems below are
  instantiated. The example environment accepts as UUIDs the strings of 36 characters.
\<close>

definition example_env :: env where
  "example_env = \<lparr>JWT_SECRET = ''secret'', roles = [''admin'', ''user''],
                   actions = [''ADMIN'', ''READ''], uuid_Parse_ok = (\<lambda>s. length s = 36)\<rparr>"

definition acme_id :: uuid where
  "acme_id = ''11111111-1111-1111-1111-111111111111''"

definition globex_id :: uuid where
  "globex_id = ''22222222-2222-2222-2222-222222222222''"

definition plant_id :: uuid where
  "plant_id = ''33333333-3333-3333-3333-333333333333''"

definition meter_id :: uuid where
  "meter_id = ''44444444-4444-4444-4444-444444444444''"

definition row_id :: uuid where
  "row_id = ''55555555-5555-5555-5555-555555555555''"

definition fresh_id :: uuid where
  "fresh_id = ''66666666-6666-6666-6666-666666666666''"

definition acme :: Customer where
  "acme = \<lparr>c_ID = acme_id, c_Name = ''Acme Co'', c_CreatedAt = 10, c_UpdatedAt = 10,
            c_DeletedAt = None\<rparr>"

definition plant :: Site where
  "plant = \<lparr>s_ID = plant_id, s_Name = ''Plant'', s_CustomerID = acme_id, s_CreatedAt = 20,
             s_UpdatedAt = 20, s_DeletedAt = None\<rparr>"

definition meter :: Device where
  "meter = \<lparr>d_ID = meter_id, d_SiteID = plant_id, d_Gateway = ''gw'', d_Controller = ''ctl'',
             d_ControllerSerialNumber = ''C-1'', d_DeviceType = ''meter'', d_DeviceName = ''Meter'',
             d_DeviceSerialNumber = ''SN-1'', d_BuildingURL = ''url'', d_AuthToken = ''tok'',
             d_CreatedAt = 30, d_UpdatedAt = 30, d_DeletedAt = None\<rparr>"

text \<open>
  Two tokens for the same customer and action, issued at different times: the claims
  \<open>GenerateJWT\<close> produces for role \<open>user\<close>.
\<close>

definition user_claims :: "time \<Rightarrow> jsonmap" where
  "user_claims issued =
     marshal_Claims \<lparr>UserID = acme_id, Username = ''Acme Co'', Role = ''user'', Action = ''READ'',
                     Issuer = ''Rubicon BMS'', IssuedAt = issued, ExpiresAt = None\<rparr>"

definition user_token :: "time \<Rightarrow> tokenstr" where
  "user_token issued = Signed HS256 ''secret'' (user_claims issued)"

definition example_db :: db where
  "example_db = \<lparr>customers = [acme], sites = [plant], devices = [meter],
                  auth_tokens = [\<lparr>t_ID = row_id, t_CustomerID = acme_id, t_Action = ''READ'',
                                  t_Token = user_token 200\<rparr>]\<rparr>"

text \<open>An admin token, as \<open>GenerateAdminTokenHandler\<close> issues it.\<close>

definition admin_token :: tokenstr where
  "admin_token =
     Signed HS256 ''secret''
       (marshal_Claims \<lparr>UserID = globex_id, Username = ''Admin'', Role = ''admin'',
                        Action = ''ADMIN'', Issuer = ''Rubicon BMS'', IssuedAt = 5,
                        ExpiresAt = None\<rparr>)"

definition empty_db :: db where
  "empty_db = \<lparr>customers = [], sites = [], devices = [], auth_tokens = []\<rparr>"

text \<open>A fresh request carrying a session cookie, path parameters and a bound body.\<close>

definition example_request :: "tokenstr \<Rightarrow> (string \<times> string) list \<Rightarrow> 'b \<Rightarrow> 'b gin_ctx" where
  "example_request tok ps body =
     \<lparr>Params = ps, Headers = [], Cookies = [(''Authorization'', tok)], Bound = Inr body,
      Keys = [], aborted = False, written = None, cookie_set = None, error_log = []\<rparr>"

text \<open>The example rows after a soft delete of each, at time 50.\<close>

definition retired_db :: db where
  "retired_db = \<lparr>customers = [acme\<lparr>c_DeletedAt := Some 50\<rparr>],
                  sites = [plant\<lparr>s_DeletedAt := Some 50\<rparr>],
                  devices = [meter\<lparr>d_DeletedAt := Some 50\<rparr>], auth_tokens = []\<rparr>"

section \<open>Properties of the token service\<close>

lemma range_has_iff: "range_has rs x \<longleftrightarrow> x \<in> set rs"
  by (induction rs) auto

text \<open>
  C7. Token issuance fails exactly when a precondition fails: the subject id does not
  parse as a UUID, the display name is not 3 to 20 characters of \<open>[a-zA-Z0-9_ ]\<close>, the
  role or the action is outside its vocabulary, or the signing secret is unset. On every
  other input it returns a token signed with the secret.
\<close>

theorem GenerateJWT_fails_iff_precondition_fails:
  "((\<exists>err. GenerateJWT e now userID username role action expire = Inl err) =
      (\<not> (IsValidUUID e userID \<and> IsValidString username \<and> role \<in> set (roles e) \<and>
          action \<in> set (actions e) \<and> JWT_SECRET e \<noteq> []))) \<and>
   ((\<exists>c. GenerateJWT e now userID username role action expire =
            Inr (Signed HS256 (JWT_SECRET e) c)) =
      (IsValidUUID e userID \<and> IsValidString username \<and> role \<in> set (roles e) \<and>
       action \<in> set (actions e) \<and> JWT_SECRET e \<noteq> []))"
  by (simp add: GenerateJWT_def IsValidRole_def IsValidAction_def range_has_iff Let_def)

lemma GenerateJWT_not_empty: "GenerateJWT e now userID username role action expire \<noteq> Inr (Raw [])"
  by (simp add: GenerateJWT_def Let_def)

lemma valid_token_not_empty: "ValidateJWT e now tokenString = Inr claims \<Longrightarrow> tokenString \<noteq> Raw []"
  by (auto simp: ValidateJWT_def)

lemma GenerateJWT_without_expiry:
  assumes "GenerateJWT e now userID username role action False = Inr tok"
  shows "\<exists>claims. tok = Signed HS256 (JWT_SECRET e) claims \<and> JWT_SECRET e \<noteq> [] \<and>
           lookup claims ''exp'' = VNil \<and> lookup claims ''nbf'' = VNil"
  using assms
  by (auto simp: GenerateJWT_def marshal_Claims_def lookup_def Let_def split: if_splits)

lemma ValidateJWT_without_expiry:
  assumes "JWT_SECRET e \<noteq> []" "lookup claims ''exp'' = VNil" "lookup claims ''nbf'' = VNil"
  shows "ValidateJWT e later (Signed HS256 (JWT_SECRET e) claims) = Inr claims"
  using assms by (simp add: ValidateJWT_def validate_claims_def)

section \<open>Properties of the persistence layer\<close>

lemma least_by_mem: "least_by key m xs \<in> set (m # xs)"
  by (induction xs arbitrary: m) (auto split: if_splits)

lemma First_Inl_iff: "(First key P rows = Inl err) = (err = ErrRecordNotFound \<and> filter P rows = [])"
  by (cases "filter P rows") (auto simp: First_def)

lemma First_Inr_mem: "First key P rows = Inr r \<Longrightarrow> r \<in> set rows \<and> P r"
proof -
  assume h: "First key P rows = Inr r"
  then obtain x xs where f: "filter P rows = x # xs" and r: "r = least_by key x xs"
    by (cases "filter P rows") (auto simp: First_def)
  have "r \<in> set (x # xs)" unfolding r by (rule least_by_mem)
  then have "r \<in> set (filter P rows)" by (simp only: f)
  then show ?thesis by simp
qed

lemma First_none: "\<forall>r\<in>set rows. \<not> P r \<Longrightarrow> First key P rows = Inl ErrRecordNotFound"
  by (simp add: First_Inl_iff filter_empty_conv)

lemma First_some: "r0 \<in> set rows \<Longrightarrow> P r0 \<Longrightarrow> \<exists>r. First key P rows = Inr r \<and> r \<in> set rows \<and> P r"
proof -
  assume a: "r0 \<in> set rows" "P r0"
  then have ne: "filter P rows \<noteq> []" by (simp add: filter_empty_conv) blast
  obtain r where r: "First key P rows = Inr r"
  proof (cases "First key P rows")
    case (Inl err)
    then have "filter P rows = []" by (simp add: First_Inl_iff)
    with ne show ?thesis by simp
  next
    case (Inr r)
    then show ?thesis by (rule that)
  qed
  from First_Inr_mem[OF r] r show ?thesis by blast
qed

lemma First_unique:
  "r \<in> set rows \<Longrightarrow> P r \<Longrightarrow> (\<forall>x\<in>set rows. P x \<longrightarrow> x = r) \<Longrightarrow> First key P rows = Inr r"
proof -
  assume a: "r \<in> set rows" "P r" and u: "\<forall>x\<in>set rows. P x \<longrightarrow> x = r"
  from First_some[of r rows P key, OF a] obtain r' where r': "First key P rows = Inr r'" "r' \<in> set rows" "P r'"
    by blast
  from u r'(2,3) have "r' = r" by blast
  with r'(1) show ?thesis by simp
qed

lemma First_AuthToken_none:
  "\<forall>t\<in>set (auth_tokens bmsDB). \<not> P t \<Longrightarrow> First_AuthToken bmsDB P = zero_AuthToken"
  by (simp add: First_AuthToken_def First_none)

lemma First_AuthToken_some:
  "t0 \<in> set (auth_tokens bmsDB) \<Longrightarrow> P t0 \<Longrightarrow>
   First_AuthToken bmsDB P \<in> set (auth_tokens bmsDB) \<and> P (First_AuthToken bmsDB P)"
proof -
  assume a: "t0 \<in> set (auth_tokens bmsDB)" "P t0"
  from First_some[of t0 "auth_tokens bmsDB" P t_ID, OF a]
  obtain r where "First t_ID P (auth_tokens bmsDB) = Inr r" "r \<in> set (auth_tokens bmsDB)" "P r"
    by blast
  then show ?thesis by (simp add: First_AuthToken_def)
qed

section \<open>Properties of responses and the request context\<close>

lemma written_WriteError:
  "written c = None \<Longrightarrow>
   written (WriteError c status message errMsg) =
     Some \<lparr>http_status = status, body_fields = marshal_Response
       \<lparr>Status = status, Message = message, Data = NoData, Error = errMsg\<rparr>\<rparr>"
  by (simp add: WriteError_def JSON_def Let_def)

lemma written_WriteJSON:
  "written c = None \<Longrightarrow>
   written (WriteJSON c status message data) =
     Some \<lparr>http_status = status, body_fields = marshal_Response
       \<lparr>Status = status, Message = message, Data = data, Error = []\<rparr>\<rparr>"
  by (simp add: WriteJSON_def JSON_def Let_def)

lemma written_Abort: "written (Abort c) = written c"
  by (simp add: Abort_def)

lemma aborted_Abort: "aborted (Abort c)"
  by (simp add: Abort_def)

lemma http_status_WriteError:
  "written c = None \<Longrightarrow>
   \<exists>r. written (WriteError c status message errMsg) = Some r \<and> http_status r = status"
  by (simp add: written_WriteError)

lemma Keys_WriteError: "Keys (WriteError c status message errMsg) = Keys c"
  by (simp add: WriteError_def JSON_def Let_def split: option.splits)

lemma Keys_Abort: "Keys (Abort c) = Keys c"
  by (simp add: Abort_def)

lemma Keys_Recovery: "Keys (Recovery c) = Keys c"
  by (simp add: Recovery_def AbortWithStatus_def Abort_def split: option.splits)

lemma marshal_Response_status: "map_of (marshal_Response r) ''status'' = Some (JNum (Status r))"
  by (simp add: marshal_Response_def)

lemma WriteJSON_envelope:
  "written c = None \<Longrightarrow>
   \<exists>r. written (WriteJSON c status message data) = Some r \<and> http_status r = status \<and>
       map_of (body_fields r) ''status'' = Some (JNum status) \<and>
       map_of (body_fields r) ''error'' = None \<and>
       error_log (WriteJSON c status message data) = error_log c"
  by (simp add: WriteJSON_def JSON_def marshal_Response_def Let_def)

lemma WriteError_envelope:
  "written c = None \<Longrightarrow>
   \<exists>r. written (WriteError c status message errMsg) = Some r \<and> http_status r = status \<and>
       map_of (body_fields r) ''status'' = Some (JNum status) \<and>
       map_of (body_fields r) ''data'' = None \<and>
       error_log (WriteError c status message errMsg) = error_log c @ [(message, errMsg)]"
  by (simp add: WriteError_def JSON_def marshal_Response_def Let_def)

lemma issued_token_WriteError:
  "written c = None \<Longrightarrow> status \<noteq> 200 \<Longrightarrow>
   issued_token (written (WriteError c status message errMsg)) = None"
  by (simp add: issued_token_def written_WriteError)

lemma issued_token_WriteJSON_TokenData:
  "written c = None \<Longrightarrow>
   issued_token (written (WriteJSON c 200 message (TokenData tok))) = Some tok"
  by (simp add: issued_token_def written_WriteJSON marshal_Response_def)

lemma issued_token_WriteJSON_AuthTokenData:
  "written c = None \<Longrightarrow>
   issued_token (written (WriteJSON c 200 message (AuthTokenData row customer))) = Some (t_Token row)"
  by (simp add: issued_token_def written_WriteJSON marshal_Response_def)

lemma issued_token_after_bind_error:
  "written c = None \<Longrightarrow>
   issued_token (written (WriteError (AbortWithStatus c 400) 400 message errMsg)) = None"
  by (simp add: issued_token_def WriteError_def JSON_def AbortWithStatus_def Abort_def Let_def)

lemmas example_defs = example_env_def acme_id_def globex_id_def plant_id_def meter_id_def row_id_def
  fresh_id_def acme_def plant_def meter_def user_claims_def user_token_def example_db_def
  example_request_def

lemmas handler_eval_defs = AuthMiddleware_def SiteFetchByID_def
  DeviceFetchBySerialNumber_def Cookie_def ValidateJWT_def validate_claims_def lookup_def
  marshal_Claims_def GetDB_def GetDBInstance_def First_AuthToken_def First_def Set_key_def
  GetString_def Param_def IsValidUUID_def FetchSiteByID_def FetchCustomerByID_def
  FetchDeviceBySerialNumber_def preload_Customer_def preload_Site_Customer_def WriteError_def
  WriteJSON_def JSON_def Abort_def marshal_Response_def device_response_def Let_def

section \<open>Properties of the middleware\<close>

text \<open>
  C2. A request to a session-gated route carries a token that \<open>ValidateJWT\<close> accepts and
  whose role is a string other than \<open>admin\<close>. When no \<open>AuthToken\<close> row matches the
  token's subject and action, \<open>AuthMiddleware\<close> answers 401 "Token not found" and aborts:
  the outcome of the route's chain is that answer whatever handlers follow, so none of
  them runs, and the database is untouched. This covers a token whose row was deleted:
  the signature still validates, the lookup finds nothing.
\<close>

theorem AuthMiddleware_rejects_token_without_row:
  assumes cookie: "Cookie c ''Authorization'' = Inr tokenString"
    and valid: "ValidateJWT e now tokenString = Inr claims"
    and role: "lookup claims ''role'' = VStr role"
    and nonadmin: "role \<noteq> ''admin''"
    and norow: "\<forall>t\<in>set (auth_tokens bmsDB).
                  \<not> (VStr (t_CustomerID t) = lookup claims ''user_id'' \<and>
                     VStr (t_Action t) = lookup claims ''action'')"
    and unwritten: "written c = None"
  shows "run_chain (AuthMiddleware e now # downstream) (c, Inr bmsDB) =
           (Abort (WriteError c 401 ''Unauthorized'' ''Token not found''), Inr bmsDB) \<and>
         written (Abort (WriteError c 401 ''Unauthorized'' ''Token not found'')) =
           Some \<lparr>http_status = 401,
                 body_fields = [(''status'', JNum 401), (''message'', JText ''Unauthorized''),
                                (''error'', JText ''Token not found'')]\<rparr>"
proof -
  have z: "First_AuthToken bmsDB
             (\<lambda>t. VStr (t_CustomerID t) = lookup claims ''user_id'' \<and>
                  VStr (t_Action t) = lookup claims ''action'') = zero_AuthToken"
    using norow by (rule First_AuthToken_none)
  have m: "AuthMiddleware e now (c, Inr bmsDB) =
             (Abort (WriteError c 401 ''Unauthorized'' ''Token not found''), Inr bmsDB)"
    by (simp add: AuthMiddleware_def cookie valid role nonadmin z GetDB_def zero_AuthToken_def)
  have r: "run_chain (AuthMiddleware e now # downstream) (c, Inr bmsDB) =
             (Abort (WriteError c 401 ''Unauthorized'' ''Token not found''), Inr bmsDB)"
    by (simp add: m aborted_Abort)
  have w: "written (Abort (WriteError c 401 ''Unauthorized'' ''Token not found'')) =
           Some \<lparr>http_status = 401,
                 body_fields = [(''status'', JNum 401), (''message'', JText ''Unauthorized''),
                                (''error'', JText ''Token not found'')]\<rparr>"
    by (simp add: written_Abort written_WriteError unwritten marshal_Response_def)
  from r w show ?thesis by simp
qed

theorem AuthMiddleware_rejects_token_without_row_witness:
  "ValidateJWT example_env 300 (user_token 200) = Inr (user_claims 200) \<and>
   written (fst (run_chain [AuthMiddleware example_env 300, CustomerFetchByID example_env]
      (example_request (user_token 200) [(''customer_id'', acme_id)] (),
       Inr (example_db\<lparr>auth_tokens := []\<rparr>)))) =
     Some \<lparr>http_status = 401,
           body_fields = [(''status'', JNum 401), (''message'', JText ''Unauthorized''),
                          (''error'', JText ''Token not found'')]\<rparr>"
proof -
  let ?c = "example_request (user_token 200) [(''customer_id'', acme_id)] ()"
  let ?db = "example_db\<lparr>auth_tokens := []\<rparr>"
  have h1: "Cookie ?c ''Authorization'' = Inr (user_token 200)"
    by (simp add: Cookie_def example_request_def)
  have h2: "ValidateJWT example_env 300 (user_token 200) = Inr (user_claims 200)"
    by (simp add: ValidateJWT_def validate_claims_def lookup_def marshal_Claims_def example_defs)
  have h3: "lookup (user_claims 200) ''role'' = VStr ''user''"
    by (simp add: lookup_def marshal_Claims_def user_claims_def)
  have h4: "''user'' \<noteq> ''admin''" by simp
  have h5: "\<forall>t\<in>set (auth_tokens ?db).
              \<not> (VStr (t_CustomerID t) = lookup (user_claims 200) ''user_id'' \<and>
                 VStr (t_Action t) = lookup (user_claims 200) ''action'')"
    by simp
  have h6: "written ?c = None" by (simp add: example_request_def)
  from AuthMiddleware_rejects_token_without_row[OF h1 h2 h3 h4 h5 h6,
      of "[CustomerFetchByID example_env]"] h2
  show ?thesis by simp
qed

text \<open>
  C9. For a non-admin session \<open>AuthMiddleware\<close> looks the token's row up by the pair
  (subject, action) only: when some stored row carries that pair, the request passes and
  the claims are bound, whether or not any stored token string equals the presented
  token. \<open>POST /authenticate\<close> looks the row up by the token string: the same token is
  accepted there exactly when a stored row holds that very string. So a superseded token
  of the same customer and action still passes the middleware, while \<open>/authenticate\<close>
  refuses it. Stored token strings are not empty, as \<open>GenerateTokenHandler\<close> writes them.
\<close>

theorem AuthMiddleware_matches_pair_Authenticate_matches_string:
  assumes cookie: "Cookie c ''Authorization'' = Inr tokenString"
    and valid: "ValidateJWT e now tokenString = Inr claims"
    and role: "lookup claims ''role'' = VStr role"
    and nonadmin: "role \<noteq> ''admin''"
    and row: "t0 \<in> set (auth_tokens bmsDB)"
    and pair: "VStr (t_CustomerID t0) = lookup claims ''user_id'' \<and>
               VStr (t_Action t0) = lookup claims ''action''"
    and stored: "\<forall>t\<in>set (auth_tokens bmsDB). t_Token t \<noteq> Raw []"
    and body: "Bound c' = Inr \<lparr>aq_Token = tokenString\<rparr>"
  shows "AuthMiddleware e now (c, Inr bmsDB) =
           (Set_key (Set_key (Set_key c ''customer_id'' (lookup claims ''user_id''))
              ''role'' (VStr role)) ''action'' (lookup claims ''action''), Inr bmsDB) \<and>
         AuthenticateHandler e now (c', Inr bmsDB) =
           (if tokenString \<in> t_Token ` set (auth_tokens bmsDB)
            then WriteJSON (SetCookie c' ''Authorization'' tokenString) 200 ''Token validated'' NoData
            else WriteError c' 401 ''Invalid token'' ''Token not found'', Inr bmsDB)"
proof -
  let ?P = "\<lambda>t. VStr (t_CustomerID t) = lookup claims ''user_id'' \<and>
                 VStr (t_Action t) = lookup claims ''action''"
  from First_AuthToken_some[of t0 bmsDB ?P, OF row pair]
  have "First_AuthToken bmsDB ?P \<in> set (auth_tokens bmsDB)" by simp
  with stored have ne: "t_Token (First_AuthToken bmsDB ?P) \<noteq> Raw []" by blast
  have m: "AuthMiddleware e now (c, Inr bmsDB) =
           (Set_key (Set_key (Set_key c ''customer_id'' (lookup claims ''user_id''))
              ''role'' (VStr role)) ''action'' (lookup claims ''action''), Inr bmsDB)"
    by (simp add: AuthMiddleware_def cookie valid role nonadmin ne GetDB_def Let_def)
  have tne: "tokenString \<noteq> Raw []" using valid by (rule valid_token_not_empty)
  have a: "AuthenticateHandler e now (c', Inr bmsDB) =
           (if tokenString \<in> t_Token ` set (auth_tokens bmsDB)
            then WriteJSON (SetCookie c' ''Authorization'' tokenString) 200 ''Token validated'' NoData
            else WriteError c' 401 ''Invalid token'' ''Token not found'', Inr bmsDB)"
  proof (cases "tokenString \<in> t_Token ` set (auth_tokens bmsDB)")
    case True
    then obtain t1 where t1: "t1 \<in> set (auth_tokens bmsDB)" "t_Token t1 = tokenString" by auto
    from First_AuthToken_some[of t1 bmsDB "\<lambda>t. t_Token t = tokenString", OF t1]
    have "t_Token (First_AuthToken bmsDB (\<lambda>t. t_Token t = tokenString)) = tokenString" by simp
    with True tne show ?thesis
      by (simp add: AuthenticateHandler_def BindJSON_def body valid role nonadmin GetDB_def Let_def)
  next
    case False
    then have "\<forall>t\<in>set (auth_tokens bmsDB). \<not> t_Token t = tokenString" by auto
    then have "First_AuthToken bmsDB (\<lambda>t. t_Token t = tokenString) = zero_AuthToken"
      by (rule First_AuthToken_none)
    with False tne show ?thesis
      by (simp add: AuthenticateHandler_def BindJSON_def body valid role nonadmin GetDB_def Let_def
          zero_AuthToken_def)
  qed
  from m a show ?thesis by simp
qed

theorem AuthMiddleware_matches_pair_Authenticate_matches_string_witness:
  "user_token 100 \<noteq> user_token 200 \<and>
   \<not> aborted (fst (AuthMiddleware example_env 300
       (example_request (user_token 100) [] (), Inr example_db))) \<and>
   written (fst (AuthMiddleware example_env 300
       (example_request (user_token 100) [] (), Inr example_db))) = None \<and>
   GetString (fst (AuthMiddleware example_env 300
       (example_request (user_token 100) [] (), Inr example_db))) ''customer_id'' = acme_id \<and>
   written (fst (AuthenticateHandler example_env 300
       (example_request (Raw []) [] \<lparr>aq_Token = user_token 100\<rparr>, Inr example_db))) =
     Some \<lparr>http_status = 401,
           body_fields = [(''status'', JNum 401), (''message'', JText ''Invalid token''),
                          (''error'', JText ''Token not found'')]\<rparr>"
proof -
  let ?c = "example_request (user_token 100) [] ()"
  let ?c' = "example_request (Raw []) [] \<lparr>aq_Token = user_token 100\<rparr>"
  let ?t0 = "\<lparr>t_ID = row_id, t_CustomerID = acme_id, t_Action = ''READ'', t_Token = user_token 200\<rparr>"
  have h1: "Cookie ?c ''Authorization'' = Inr (user_token 100)"
    by (simp add: Cookie_def example_request_def)
  have h2: "ValidateJWT example_env 300 (user_token 100) = Inr (user_claims 100)"
    by (simp add: ValidateJWT_def validate_claims_def lookup_def marshal_Claims_def example_defs)
  have h3: "lookup (user_claims 100) ''role'' = VStr ''user''"
    by (simp add: lookup_def marshal_Claims_def user_claims_def)
  have h4: "''user'' \<noteq> ''admin''" by simp
  have h5: "?t0 \<in> set (auth_tokens example_db)" by (simp add: example_db_def)
  have h6: "VStr (t_CustomerID ?t0) = lookup (user_claims 100) ''user_id'' \<and>
            VStr (t_Action ?t0) = lookup (user_claims 100) ''action''"
    by (simp add: lookup_def marshal_Claims_def user_claims_def)
  have h7: "\<forall>t\<in>set (auth_tokens example_db). t_Token t \<noteq> Raw []"
    by (simp add: example_db_def user_token_def)
  have h8: "Bound ?c' = Inr \<lparr>aq_Token = user_token 100\<rparr>" by (simp add: example_request_def)
  have d: "user_token 100 \<noteq> user_token 200"
    by (simp add: user_token_def user_claims_def marshal_Claims_def)
  from AuthMiddleware_matches_pair_Authenticate_matches_string[OF h1 h2 h3 h4 h5 h6 h7 h8] d
  show ?thesis
    by (simp add: Set_key_def GetString_def lookup_def example_request_def example_db_def
        written_WriteError marshal_Response_def user_claims_def marshal_Claims_def)
qed

text \<open>
  \<open>GenerateTokenHandler\<close>, the only writer of the \<open>auth_tokens\<close> table, stores signed
  tokens: when no stored token string is empty before the request, none is afterwards.
\<close>

lemma GenerateTokenHandler_stores_nonempty_tokens:
  assumes inv: "\<forall>t\<in>set (auth_tokens bmsDB). t_Token t \<noteq> Raw []"
    and res: "snd (GenerateTokenHandler e now fresh (c, Inr bmsDB)) = Inr db'"
  shows "\<forall>t\<in>set (auth_tokens db'). t_Token t \<noteq> Raw []"
  using inv res
  by (auto simp add: GenerateTokenHandler_def BindJSON_def GetDB_def Create_AuthToken_def Let_def
      GenerateJWT_not_empty split: sum.splits if_splits prod.splits)

lemma AuthMiddleware_never_binds_user_id:
  "GetString (fst (AuthMiddleware e now (c, inst))) ''user_id'' = GetString c ''user_id''"
proof (cases "Cookie c ''Authorization''")
  case (Inl err)
  then show ?thesis
    by (simp add: AuthMiddleware_def GetString_def Keys_Abort Keys_WriteError)
next
  case tok: (Inr tokenString)
  show ?thesis
  proof (cases "ValidateJWT e now tokenString")
    case (Inl err)
    with tok show ?thesis
      by (simp add: AuthMiddleware_def GetString_def Keys_Abort Keys_WriteError)
  next
    case cl: (Inr claims)
    show ?thesis
    proof (cases "GetDB inst")
      case (Inl err)
      with tok cl show ?thesis
        by (simp add: AuthMiddleware_def GetString_def Keys_Abort Keys_WriteError)
    next
      case db: (Inr bmsDB)
      show ?thesis
      proof (cases "lookup claims ''role''")
        case VNil
        with tok cl db show ?thesis
          by (simp add: AuthMiddleware_def GetString_def Keys_Recovery)
      next
        case (VNum n)
        with tok cl db show ?thesis
          by (simp add: AuthMiddleware_def GetString_def Keys_Recovery)
      next
        case (VStr role)
        with tok cl db show ?thesis
          by (simp add: AuthMiddleware_def GetString_def Keys_Abort Keys_WriteError Let_def
              lookup_def Set_key_def)
      qed
    qed
  qed
qed

text \<open>
  C8. The 401 of the admin-secret gate is not the envelope. A request to an \<open>/admin\<close> route
  with a wrong \<open>Admin-Secret\<close> header is answered with status 401 and a body of the two
  fields \<open>error\<close> and \<open>message\<close>: there is no \<open>status\<close> field, and nothing is sent to the
  error logger, unlike the answers \<open>WriteError\<close> writes.
\<close>

theorem AdminMiddleware_reply_is_not_the_envelope:
  "written (fst (AdminMiddleware ''admin-secret''
      ((example_request (Raw []) [] ())\<lparr>Headers := [(''Admin-Secret'', ''guess'')]\<rparr>,
       Inr example_db))) =
     Some \<lparr>http_status = 401,
           body_fields = [(''error'', JText ''Unauthorized''),
                          (''message'', JText ''Invalid admin secret'')]\<rparr> \<and>
   map_of [(''error'', JText ''Unauthorized''), (''message'', JText ''Invalid admin secret'')]
     ''status'' = None \<and>
   error_log (fst (AdminMiddleware ''admin-secret''
      ((example_request (Raw []) [] ())\<lparr>Headers := [(''Admin-Secret'', ''guess'')]\<rparr>,
       Inr example_db))) = []"
  by (simp add: AdminMiddleware_def GetHeader_def JSON_def Abort_def example_request_def Let_def)

section \<open>Properties of the resource handlers\<close>

text \<open>
  C5. \<open>GET /customers/:customer_id\<close> by a caller whose bound role is not \<open>admin\<close>, for a
  well-formed id other than the caller's bound subject id, answers 403. The answer is
  decided before the database instance is touched: it is the same for any two database
  instances, so it does not depend on whether a customer row with that id exists.
\<close>

theorem CustomerFetchByID_forbidden_before_lookup:
  assumes wf: "IsValidUUID e (Param c ''customer_id'')"
    and nonadmin: "GetString c ''role'' \<noteq> ''admin''"
    and other: "GetString c ''customer_id'' \<noteq> Param c ''customer_id''"
    and unwritten: "written c = None"
  shows "CustomerFetchByID e (c, inst) = (WriteError c 403 ''Forbidden'' ''Unauthorized access'', inst) \<and>
         fst (CustomerFetchByID e (c, inst)) = fst (CustomerFetchByID e (c, inst')) \<and>
         written (fst (CustomerFetchByID e (c, inst))) =
           Some \<lparr>http_status = 403,
                 body_fields = [(''status'', JNum 403), (''message'', JText ''Forbidden''),
                                (''error'', JText ''Unauthorized access'')]\<rparr>"
  using assms
  by (simp add: CustomerFetchByID_def Let_def written_WriteError marshal_Response_def)

theorem CustomerFetchByID_forbidden_before_lookup_witness:
  "written (fst (CustomerFetchByID example_env
      (Set_key (Set_key (example_request (user_token 200) [(''customer_id'', globex_id)] ())
          ''customer_id'' (VStr acme_id)) ''role'' (VStr ''user''), Inr example_db))) =
     Some \<lparr>http_status = 403,
           body_fields = [(''status'', JNum 403), (''message'', JText ''Forbidden''),
                          (''error'', JText ''Unauthorized access'')]\<rparr> \<and>
   fst (CustomerFetchByID example_env
      (Set_key (Set_key (example_request (user_token 200) [(''customer_id'', globex_id)] ())
          ''customer_id'' (VStr acme_id)) ''role'' (VStr ''user''), Inr example_db)) =
   fst (CustomerFetchByID example_env
      (Set_key (Set_key (example_request (user_token 200) [(''customer_id'', globex_id)] ())
          ''customer_id'' (VStr acme_id)) ''role'' (VStr ''user''),
       Inr (example_db\<lparr>customers := []\<rparr>)))"
proof -
  let ?c = "Set_key (Set_key (example_request (user_token 200) [(''customer_id'', globex_id)] ())
          ''customer_id'' (VStr acme_id)) ''role'' (VStr ''user'')"
  have h1: "IsValidUUID example_env (Param ?c ''customer_id'')"
    by (simp add: IsValidUUID_def Param_def Set_key_def example_defs)
  have h2: "GetString ?c ''role'' \<noteq> ''admin''"
    by (simp add: GetString_def lookup_def Set_key_def example_defs)
  have h3: "GetString ?c ''customer_id'' \<noteq> Param ?c ''customer_id''"
    by (simp add: GetString_def lookup_def Param_def Set_key_def example_defs)
  have h4: "written ?c = None" by (simp add: Set_key_def example_request_def)
  from CustomerFetchByID_forbidden_before_lookup[OF h1 h2 h3 h4,
      of "Inr example_db" "Inr (example_db\<lparr>customers := []\<rparr>)"]
  show ?thesis by blast
qed

text \<open>
  C1. The owner of a site or device is refused. A user token of customer Acme, backed by a
  stored row, passes \<open>AuthMiddleware\<close>; the site and the device fetched belong to Acme
  through the ownership chain; both handlers answer 403. They read the requester from the
  context key \<open>user_id\<close>, which the middleware never sets (it binds \<open>customer_id\<close>).
\<close>

theorem owner_fetch_of_site_and_device_is_forbidden:
  "lookup (user_claims 200) ''user_id'' = VStr (s_CustomerID plant) \<and>
   d_SiteID meter = s_ID plant \<and>
   written (fst (run_chain [AuthMiddleware example_env 300, SiteFetchByID example_env]
      (example_request (user_token 200) [(''site_id'', plant_id)] (), Inr example_db))) =
     Some \<lparr>http_status = 403,
           body_fields = [(''status'', JNum 403), (''message'', JText ''Forbidden''),
                          (''error'', JText ''You are not authorized to access this site'')]\<rparr> \<and>
   written (fst (run_chain [AuthMiddleware example_env 300, DeviceFetchBySerialNumber]
      (example_request (user_token 200) [(''device_serial_number'', ''SN-1'')] (),
       Inr example_db))) =
     Some \<lparr>http_status = 403,
           body_fields = [(''status'', JNum 403), (''message'', JText ''Forbidden''),
                          (''error'', JText ''You are not authorized to access this customer's devices'')]\<rparr>"
  by (simp add: handler_eval_defs example_defs)

text \<open>
  No caller whose bound role is not \<open>admin\<close> is ever answered 200 by \<open>SiteFetchByID\<close>
  behind \<open>AuthMiddleware\<close>: the key \<open>user_id\<close> is unset, and no customer has an empty id.
\<close>

lemma SiteFetchByID_refuses_every_non_admin:
  assumes role: "GetString c ''role'' \<noteq> ''admin''"
    and unbound: "GetString c ''user_id'' = []"
    and unwritten: "written c = None"
    and ids: "\<forall>x\<in>set (customers bmsDB). c_ID x \<noteq> []"
  shows "\<exists>r. written (fst (SiteFetchByID e (c, Inr bmsDB))) = Some r \<and> http_status r \<in> {400, 403, 404}"
proof (cases "IsValidUUID e (Param c ''site_id'')")
  case False
  then show ?thesis
    by (simp add: SiteFetchByID_def Let_def written_WriteError unwritten)
next
  case valid: True
  show ?thesis
  proof (cases "FetchSiteByID bmsDB (Param c ''site_id'')")
    case (Inl err)
    then have "err = ErrRecordNotFound"
      by (auto simp: FetchSiteByID_def First_Inl_iff split: sum.splits)
    with Inl valid show ?thesis
      by (simp add: SiteFetchByID_def Let_def GetDBInstance_def GetDB_def written_WriteError unwritten)
  next
    case site: (Inr loaded)
    show ?thesis
    proof (cases "FetchCustomerByID bmsDB (s_CustomerID (site_row loaded))")
      case (Inl err)
      then have "err = ErrRecordNotFound"
        by (auto simp: FetchCustomerByID_def First_Inl_iff split: sum.splits)
      with Inl site valid show ?thesis
        by (simp add: SiteFetchByID_def Let_def GetDBInstance_def GetDB_def written_WriteError unwritten)
    next
      case cust: (Inr customer)
      then have "customer \<in> set (customers bmsDB)"
        by (auto simp: FetchCustomerByID_def split: sum.splits dest: First_Inr_mem)
      with ids have "c_ID customer \<noteq> []" by blast
      with cust site valid role unbound show ?thesis
        by (simp add: SiteFetchByID_def Let_def GetDBInstance_def GetDB_def written_WriteError
            unwritten)
    qed
  qed
qed

text \<open>
  C6. The lookup behind \<open>GET /devices/:device_serial_number\<close> ignores the soft-delete
  marker: a device row whose serial number no other row carries is found by that serial
  number, deleted or not. The fetch-by-ID helpers of customers and sites return a row
  (one that alone carries its id) only while it is not soft-deleted, and
  \<open>ErrRecordNotFound\<close> otherwise.
\<close>

theorem device_lookup_ignores_soft_delete:
  assumes d: "d \<in> set (devices bmsDB)"
    and d_unique: "\<forall>x\<in>set (devices bmsDB). d_DeviceSerialNumber x = d_DeviceSerialNumber d \<longrightarrow> x = d"
    and cu: "cu \<in> set (customers bmsDB)"
    and cu_unique: "\<forall>x\<in>set (customers bmsDB). c_ID x = c_ID cu \<longrightarrow> x = cu"
    and s: "s \<in> set (sites bmsDB)"
    and s_unique: "\<forall>x\<in>set (sites bmsDB). s_ID x = s_ID s \<longrightarrow> x = s"
  shows "(\<exists>loaded. FetchDeviceBySerialNumber bmsDB (d_DeviceSerialNumber d) = Inr loaded \<and>
                   device_row loaded = d) \<and>
         FetchCustomerByID bmsDB (c_ID cu) =
           (if c_DeletedAt cu = None then Inr cu else Inl ErrRecordNotFound) \<and>
         (case FetchSiteByID bmsDB (s_ID s) of
            Inl err \<Rightarrow> s_DeletedAt s \<noteq> None \<and> err = ErrRecordNotFound
          | Inr loaded \<Rightarrow> s_DeletedAt s = None \<and> site_row loaded = s)"
proof -
  have dev: "First d_ID (\<lambda>x. d_DeviceSerialNumber x = d_DeviceSerialNumber d) (devices bmsDB) = Inr d"
    using d d_unique by (intro First_unique) auto
  have c1: "c_DeletedAt cu = None \<Longrightarrow>
            First c_ID (\<lambda>c. c_DeletedAt c = None \<and> c_ID c = c_ID cu) (customers bmsDB) = Inr cu"
    using cu cu_unique by (intro First_unique) auto
  have c2: "c_DeletedAt cu \<noteq> None \<Longrightarrow>
            First c_ID (\<lambda>c. c_DeletedAt c = None \<and> c_ID c = c_ID cu) (customers bmsDB) =
              Inl ErrRecordNotFound"
    using cu_unique by (intro First_none) auto
  have s1: "s_DeletedAt s = None \<Longrightarrow>
            First s_ID (\<lambda>x. s_DeletedAt x = None \<and> s_ID x = s_ID s) (sites bmsDB) = Inr s"
    using s s_unique by (intro First_unique) auto
  have s2: "s_DeletedAt s \<noteq> None \<Longrightarrow>
            First s_ID (\<lambda>x. s_DeletedAt x = None \<and> s_ID x = s_ID s) (sites bmsDB) =
              Inl ErrRecordNotFound"
    using s_unique by (intro First_none) auto
  have p1: "\<exists>loaded. FetchDeviceBySerialNumber bmsDB (d_DeviceSerialNumber d) = Inr loaded \<and>
                   device_row loaded = d"
    by (simp add: FetchDeviceBySerialNumber_def dev)
  have p2: "FetchCustomerByID bmsDB (c_ID cu) =
           (if c_DeletedAt cu = None then Inr cu else Inl ErrRecordNotFound)"
    using c1 c2 by (cases "c_DeletedAt cu = None") (simp_all add: FetchCustomerByID_def)
  have p3: "(case FetchSiteByID bmsDB (s_ID s) of
            Inl err \<Rightarrow> s_DeletedAt s \<noteq> None \<and> err = ErrRecordNotFound
          | Inr loaded \<Rightarrow> s_DeletedAt s = None \<and> site_row loaded = s)"
    using s1 s2 by (cases "s_DeletedAt s = None") (simp_all add: FetchSiteByID_def)
  from p1 p2 p3 show ?thesis by blast
qed

theorem device_lookup_ignores_soft_delete_witness:
  "(\<exists>loaded. FetchDeviceBySerialNumber retired_db ''SN-1'' = Inr loaded \<and>
             device_row loaded = meter\<lparr>d_DeletedAt := Some 50\<rparr>) \<and>
   FetchCustomerByID retired_db acme_id = Inl ErrRecordNotFound \<and>
   FetchSiteByID retired_db plant_id = Inl ErrRecordNotFound"
proof -
  have h1: "meter\<lparr>d_DeletedAt := Some 50\<rparr> \<in> set (devices retired_db)"
    by (simp add: retired_db_def)
  have h2: "\<forall>x\<in>set (devices retired_db).
              d_DeviceSerialNumber x = d_DeviceSerialNumber (meter\<lparr>d_DeletedAt := Some 50\<rparr>) \<longrightarrow>
              x = meter\<lparr>d_DeletedAt := Some 50\<rparr>"
    by (simp add: retired_db_def)
  have h3: "acme\<lparr>c_DeletedAt := Some 50\<rparr> \<in> set (customers retired_db)"
    by (simp add: retired_db_def)
  have h4: "\<forall>x\<in>set (customers retired_db).
              c_ID x = c_ID (acme\<lparr>c_DeletedAt := Some 50\<rparr>) \<longrightarrow> x = acme\<lparr>c_DeletedAt := Some 50\<rparr>"
    by (simp add: retired_db_def)
  have h5: "plant\<lparr>s_DeletedAt := Some 50\<rparr> \<in> set (sites retired_db)"
    by (simp add: retired_db_def)
  have h6: "\<forall>x\<in>set (sites retired_db).
              s_ID x = s_ID (plant\<lparr>s_DeletedAt := Some 50\<rparr>) \<longrightarrow> x = plant\<lparr>s_DeletedAt := Some 50\<rparr>"
    by (simp add: retired_db_def)
  from device_lookup_ignores_soft_delete[OF h1 h2 h3 h4 h5 h6]
  show ?thesis
    by (simp add: meter_def acme_def plant_def split: sum.splits)
qed

lemma CustomerCreate_restores:
  assumes body: "Bound c = Inr body"
    and nm: "rq_Name body = c_Name r" and ne: "c_Name r \<noteq> []"
    and r: "r \<in> set (customers bmsDB)"
    and del: "c_DeletedAt r \<noteq> None"
    and uniq: "\<forall>x\<in>set (customers bmsDB). c_Name x = c_Name r \<longrightarrow> x = r"
  shows "CustomerCreate now fresh (c, Inr bmsDB) =
           (WriteJSON c 200 ''Customer restored''
              (CustomerData \<lparr>cr_ID = c_ID r, cr_Name = c_Name r\<rparr>),
            Inr (bmsDB\<lparr>customers :=
                   map (\<lambda>x. if c_ID x = c_ID r
                            then r\<lparr>c_DeletedAt := None, c_CreatedAt := now, c_UpdatedAt := now\<rparr>
                            else x) (customers bmsDB)\<rparr>))"
proof -
  have f: "First c_ID (\<lambda>x. c_Name x = c_Name r) (customers bmsDB) = Inr r"
    using r uniq by (intro First_unique) auto
  show ?thesis
    using del ne
    by (simp add: CustomerCreate_def BindJSON_def body nm GetDBInstance_def GetDB_def
        FetchCustomerByName_def f Save_Customer_def Let_def)
qed

lemma SiteCreate_restores:
  assumes param: "IsValidUUID e (Param c ''customer_id'')"
    and body: "Bound c = Inr body"
    and nm: "sq_Name body = s_Name r" and ne: "s_Name r \<noteq> []"
    and parent: "FetchCustomerByID bmsDB (Param c ''customer_id'') = Inr customer"
    and r: "r \<in> set (sites bmsDB)"
    and del: "s_DeletedAt r \<noteq> None"
    and uniq: "\<forall>x\<in>set (sites bmsDB). s_Name x = s_Name r \<longrightarrow> x = r"
  shows "SiteCreate e now fresh (c, Inr bmsDB) =
           (WriteJSON c 200 ''Site restored''
              (SiteData \<lparr>sr_ID = s_ID r, sr_Name = s_Name r, sr_CustomerID = c_ID customer,
                          sr_CustomerName = c_Name customer\<rparr>),
            Inr (bmsDB\<lparr>sites :=
                   map (\<lambda>x. if s_ID x = s_ID r
                            then r\<lparr>s_DeletedAt := None, s_CreatedAt := now, s_UpdatedAt := now\<rparr>
                            else x) (sites bmsDB)\<rparr>))"
proof -
  have f: "First s_ID (\<lambda>x. s_Name x = s_Name r) (sites bmsDB) = Inr r"
    using r uniq by (intro First_unique) auto
  show ?thesis
    using del ne param
    by (simp add: SiteCreate_def BindJSON_def body nm GetDBInstance_def GetDB_def parent
        FetchSiteByName_def f Save_Site_def Let_def)
qed

lemma DeviceCreate_restores:
  assumes body: "Bound c = Inr body"
    and param1: "IsValidUUID e (Param c ''customer_id'')"
    and param2: "IsValidUUID e (Param c ''site_id'')"
    and parent: "FetchCustomerByID bmsDB (Param c ''customer_id'') = Inr customer"
    and site: "FetchSiteByID bmsDB (Param c ''site_id'') = Inr loaded"
    and owner: "s_CustomerID (site_row loaded) = c_ID customer"
    and sn: "dq_DeviceSerialNumber body = d_DeviceSerialNumber r"
    and r: "r \<in> set (devices bmsDB)"
    and del: "d_DeletedAt r \<noteq> None"
    and uniq: "\<forall>x\<in>set (devices bmsDB). d_DeviceSerialNumber x = d_DeviceSerialNumber r \<longrightarrow> x = r"
  shows "DeviceCreate e now fresh (c, Inr bmsDB) =
           (WriteJSON c 200 ''Device restored''
              (DeviceData (device_response
                 (r\<lparr>d_DeletedAt := None, d_CreatedAt := now, d_UpdatedAt := now\<rparr>)
                 customer (site_row loaded))),
            Inr (bmsDB\<lparr>devices :=
                   map (\<lambda>x. if d_ID x = d_ID r
                            then x\<lparr>d_DeletedAt := None, d_CreatedAt := now, d_UpdatedAt := now\<rparr>
                            else x) (devices bmsDB)\<rparr>))"
proof -
  have f: "First d_ID (\<lambda>x. d_DeviceSerialNumber x = d_DeviceSerialNumber r) (devices bmsDB) = Inr r"
    using r uniq by (intro First_unique) auto
  show ?thesis
    using del param1 param2 owner
    by (simp add: DeviceCreate_def BindJSON_def body sn GetDBInstance_def GetDB_def parent site
        FetchDeviceBySerialNumber_def f Update_Device_restore_def Let_def)
qed

text \<open>
  C3. A create request whose natural key is that of a soft-deleted row restores the row.
  For a customer (name), a site (name, under an existing customer) and a device (serial
  number, under an existing customer and a site of that customer): when the row is
  soft-deleted and alone carries the key, the handler answers 200 with the message
  "... restored" and the row's own id, and the database afterwards holds that row with the
  delete marker cleared and \<open>CreatedAt\<close> and \<open>UpdatedAt\<close> set to the current time. No row
  is added.
\<close>

theorem create_restores_soft_deleted_row:
  "(Bound cc = Inr cbody \<and> rq_Name cbody = c_Name crow \<and> c_Name crow \<noteq> [] \<and>
    crow \<in> set (customers cdb) \<and> c_DeletedAt crow \<noteq> None \<and>
    (\<forall>x\<in>set (customers cdb). c_Name x = c_Name crow \<longrightarrow> x = crow) \<longrightarrow>
    CustomerCreate now fresh (cc, Inr cdb) =
      (WriteJSON cc 200 ''Customer restored''
         (CustomerData \<lparr>cr_ID = c_ID crow, cr_Name = c_Name crow\<rparr>),
       Inr (cdb\<lparr>customers :=
              map (\<lambda>x. if c_ID x = c_ID crow
                       then crow\<lparr>c_DeletedAt := None, c_CreatedAt := now, c_UpdatedAt := now\<rparr>
                       else x) (customers cdb)\<rparr>))) \<and>
   (IsValidUUID e (Param sc ''customer_id'') \<and> Bound sc = Inr sbody \<and>
    sq_Name sbody = s_Name srow \<and> s_Name srow \<noteq> [] \<and>
    FetchCustomerByID sdb (Param sc ''customer_id'') = Inr scust \<and>
    srow \<in> set (sites sdb) \<and> s_DeletedAt srow \<noteq> None \<and>
    (\<forall>x\<in>set (sites sdb). s_Name x = s_Name srow \<longrightarrow> x = srow) \<longrightarrow>
    SiteCreate e now fresh (sc, Inr sdb) =
      (WriteJSON sc 200 ''Site restored''
         (SiteData \<lparr>sr_ID = s_ID srow, sr_Name = s_Name srow, sr_CustomerID = c_ID scust,
                     sr_CustomerName = c_Name scust\<rparr>),
       Inr (sdb\<lparr>sites :=
              map (\<lambda>x. if s_ID x = s_ID srow
                       then srow\<lparr>s_DeletedAt := None, s_CreatedAt := now, s_UpdatedAt := now\<rparr>
                       else x) (sites sdb)\<rparr>))) \<and>
   (Bound dc = Inr dbody \<and> IsValidUUID e (Param dc ''customer_id'') \<and>
    IsValidUUID e (Param dc ''site_id'') \<and>
    FetchCustomerByID ddb (Param dc ''customer_id'') = Inr dcust \<and>
    FetchSiteByID ddb (Param dc ''site_id'') = Inr dsite \<and>
    s_CustomerID (site_row dsite) = c_ID dcust \<and>
    dq_DeviceSerialNumber dbody = d_DeviceSerialNumber drow \<and>
    drow \<in> set (devices ddb) \<and> d_DeletedAt drow \<noteq> None \<and>
    (\<forall>x\<in>set (devices ddb). d_DeviceSerialNumber x = d_DeviceSerialNumber drow \<longrightarrow> x = drow) \<longrightarrow>
    DeviceCreate e now fresh (dc, Inr ddb) =
      (WriteJSON dc 200 ''Device restored''
         (DeviceData (device_response
            (drow\<lparr>d_DeletedAt := None, d_CreatedAt := now, d_UpdatedAt := now\<rparr>)
            dcust (site_row dsite))),
       Inr (ddb\<lparr>devices :=
              map (\<lambda>x. if d_ID x = d_ID drow
                       then x\<lparr>d_DeletedAt := None, d_CreatedAt := now, d_UpdatedAt := now\<rparr>
                       else x) (devices ddb)\<rparr>)))"
proof (intro conjI impI)
  assume "Bound cc = Inr cbody \<and> rq_Name cbody = c_Name crow \<and> c_Name crow \<noteq> [] \<and>
    crow \<in> set (customers cdb) \<and> c_DeletedAt crow \<noteq> None \<and>
    (\<forall>x\<in>set (customers cdb). c_Name x = c_Name crow \<longrightarrow> x = crow)"
  then show "CustomerCreate now fresh (cc, Inr cdb) =
      (WriteJSON cc 200 ''Customer restored''
         (CustomerData \<lparr>cr_ID = c_ID crow, cr_Name = c_Name crow\<rparr>),
       Inr (cdb\<lparr>customers :=
              map (\<lambda>x. if c_ID x = c_ID crow
                       then crow\<lparr>c_DeletedAt := None, c_CreatedAt := now, c_UpdatedAt := now\<rparr>
                       else x) (customers cdb)\<rparr>))"
    by (intro CustomerCreate_restores) blast+
next
  assume "IsValidUUID e (Param sc ''customer_id'') \<and> Bound sc = Inr sbody \<and>
    sq_Name sbody = s_Name srow \<and> s_Name srow \<noteq> [] \<and>
    FetchCustomerByID sdb (Param sc ''customer_id'') = Inr scust \<and>
    srow \<in> set (sites sdb) \<and> s_DeletedAt srow \<noteq> None \<and>
    (\<forall>x\<in>set (sites sdb). s_Name x = s_Name srow \<longrightarrow> x = srow)"
  then show "SiteCreate e now fresh (sc, Inr sdb) =
      (WriteJSON sc 200 ''Site restored''
         (SiteData \<lparr>sr_ID = s_ID srow, sr_Name = s_Name srow, sr_CustomerID = c_ID scust,
                     sr_CustomerName = c_Name scust\<rparr>),
       Inr (sdb\<lparr>sites :=
              map (\<lambda>x. if s_ID x = s_ID srow
                       then srow\<lparr>s_DeletedAt := None, s_CreatedAt := now, s_UpdatedAt := now\<rparr>
                       else x) (sites sdb)\<rparr>))"
    by (intro SiteCreate_restores) blast+
next
  assume "Bound dc = Inr dbody \<and> IsValidUUID e (Param dc ''customer_id'') \<and>
    IsValidUUID e (Param dc ''site_id'') \<and>
    FetchCustomerByID ddb (Param dc ''customer_id'') = Inr dcust \<and>
    FetchSiteByID ddb (Param dc ''site_id'') = Inr dsite \<and>
    s_CustomerID (site_row dsite) = c_ID dcust \<and>
    dq_DeviceSerialNumber dbody = d_DeviceSerialNumber drow \<and>
    drow \<in> set (devices ddb) \<and> d_DeletedAt drow \<noteq> None \<and>
    (\<forall>x\<in>set (devices ddb). d_DeviceSerialNumber x = d_DeviceSerialNumber drow \<longrightarrow> x = drow)"
  then show "DeviceCreate e now fresh (dc, Inr ddb) =
      (WriteJSON dc 200 ''Device restored''
         (DeviceData (device_response
            (drow\<lparr>d_DeletedAt := None, d_CreatedAt := now, d_UpdatedAt := now\<rparr>)
            dcust (site_row dsite))),
       Inr (ddb\<lparr>devices :=
              map (\<lambda>x. if d_ID x = d_ID drow
                       then x\<lparr>d_DeletedAt := None, d_CreatedAt := now, d_UpdatedAt := now\<rparr>
                       else x) (devices ddb)\<rparr>))"
    by (intro DeviceCreate_restores) blast+
qed

theorem create_restores_soft_deleted_row_witness:
  "CustomerCreate 60 fresh_id
     (example_request (Raw []) [] \<lparr>rq_Name = ''Acme Co''\<rparr>, Inr retired_db) =
     (WriteJSON (example_request (Raw []) [] \<lparr>rq_Name = ''Acme Co''\<rparr>) 200 ''Customer restored''
        (CustomerData \<lparr>cr_ID = acme_id, cr_Name = ''Acme Co''\<rparr>),
      Inr (retired_db\<lparr>customers := [acme\<lparr>c_CreatedAt := 60, c_UpdatedAt := 60\<rparr>]\<rparr>)) \<and>
   SiteCreate example_env 60 fresh_id
     (example_request (Raw []) [(''customer_id'', acme_id)] \<lparr>sq_Name = ''Plant''\<rparr>,
      Inr (example_db\<lparr>sites := [plant\<lparr>s_DeletedAt := Some 50\<rparr>]\<rparr>)) =
     (WriteJSON (example_request (Raw []) [(''customer_id'', acme_id)] \<lparr>sq_Name = ''Plant''\<rparr>)
        200 ''Site restored''
        (SiteData \<lparr>sr_ID = plant_id, sr_Name = ''Plant'', sr_CustomerID = acme_id,
                    sr_CustomerName = ''Acme Co''\<rparr>),
      Inr (example_db\<lparr>sites := [plant\<lparr>s_CreatedAt := 60, s_UpdatedAt := 60\<rparr>]\<rparr>)) \<and>
   snd (DeviceCreate example_env 60 fresh_id
     (example_request (Raw []) [(''customer_id'', acme_id), (''site_id'', plant_id)]
        \<lparr>dq_Gateway = [], dq_Controller = [], dq_ControllerSerialNumber = [], dq_DeviceType = [],
         dq_DeviceName = [], dq_DeviceSerialNumber = ''SN-1'', dq_BuildingURL = [],
         dq_AuthToken = []\<rparr>,
      Inr (example_db\<lparr>devices := [meter\<lparr>d_DeletedAt := Some 50\<rparr>]\<rparr>))) =
     Inr (example_db\<lparr>devices := [meter\<lparr>d_CreatedAt := 60, d_UpdatedAt := 60\<rparr>]\<rparr>)"
proof -
  let ?cc = "example_request (Raw []) [] \<lparr>rq_Name = ''Acme Co''\<rparr>"
  let ?sc = "example_request (Raw []) [(''customer_id'', acme_id)] \<lparr>sq_Name = ''Plant''\<rparr>"
  let ?dbody = "\<lparr>dq_Gateway = [], dq_Controller = [], dq_ControllerSerialNumber = [],
     dq_DeviceType = [], dq_DeviceName = [], dq_DeviceSerialNumber = ''SN-1'', dq_BuildingURL = [],
     dq_AuthToken = []\<rparr>"
  let ?dc = "example_request (Raw []) [(''customer_id'', acme_id), (''site_id'', plant_id)] ?dbody"
  let ?crow = "acme\<lparr>c_DeletedAt := Some 50\<rparr>"
  let ?srow = "plant\<lparr>s_DeletedAt := Some 50\<rparr>"
  let ?drow = "meter\<lparr>d_DeletedAt := Some 50\<rparr>"
  let ?sdb = "example_db\<lparr>sites := [?srow]\<rparr>"
  let ?ddb = "example_db\<lparr>devices := [?drow]\<rparr>"
  have hc: "Bound ?cc = Inr \<lparr>rq_Name = ''Acme Co''\<rparr> \<and>
      rq_Name \<lparr>rq_Name = ''Acme Co''\<rparr> = c_Name ?crow \<and> c_Name ?crow \<noteq> [] \<and>
      ?crow \<in> set (customers retired_db) \<and> c_DeletedAt ?crow \<noteq> None \<and>
      (\<forall>x\<in>set (customers retired_db). c_Name x = c_Name ?crow \<longrightarrow> x = ?crow)"
    by (simp add: example_request_def retired_db_def acme_def)
  have hs: "IsValidUUID example_env (Param ?sc ''customer_id'') \<and>
      Bound ?sc = Inr \<lparr>sq_Name = ''Plant''\<rparr> \<and>
      sq_Name \<lparr>sq_Name = ''Plant''\<rparr> = s_Name ?srow \<and> s_Name ?srow \<noteq> [] \<and>
      FetchCustomerByID ?sdb (Param ?sc ''customer_id'') = Inr acme \<and>
      ?srow \<in> set (sites ?sdb) \<and> s_DeletedAt ?srow \<noteq> None \<and>
      (\<forall>x\<in>set (sites ?sdb). s_Name x = s_Name ?srow \<longrightarrow> x = ?srow)"
    by (simp add: IsValidUUID_def Param_def FetchCustomerByID_def First_def example_defs)
  have hd: "Bound ?dc = Inr ?dbody \<and> IsValidUUID example_env (Param ?dc ''customer_id'') \<and>
      IsValidUUID example_env (Param ?dc ''site_id'') \<and>
      FetchCustomerByID ?ddb (Param ?dc ''customer_id'') = Inr acme \<and>
      FetchSiteByID ?ddb (Param ?dc ''site_id'') = Inr \<lparr>site_row = plant, site_Customer = acme\<rparr> \<and>
      s_CustomerID (site_row \<lparr>site_row = plant, site_Customer = acme\<rparr>) = c_ID acme \<and>
      dq_DeviceSerialNumber ?dbody = d_DeviceSerialNumber ?drow \<and>
      ?drow \<in> set (devices ?ddb) \<and> d_DeletedAt ?drow \<noteq> None \<and>
      (\<forall>x\<in>set (devices ?ddb). d_DeviceSerialNumber x = d_DeviceSerialNumber ?drow \<longrightarrow> x = ?drow)"
    by (simp add: IsValidUUID_def Param_def FetchCustomerByID_def FetchSiteByID_def
        preload_Customer_def First_def example_defs)
  note t = create_restores_soft_deleted_row[where cc = ?cc and cbody = "\<lparr>rq_Name = ''Acme Co''\<rparr>"
      and crow = ?crow and cdb = retired_db and now = 60 and fresh = fresh_id and e = example_env
      and sc = ?sc and sbody = "\<lparr>sq_Name = ''Plant''\<rparr>" and srow = ?srow and sdb = ?sdb
      and scust = acme and dc = ?dc and dbody = ?dbody and drow = ?drow and ddb = ?ddb
      and dcust = acme and dsite = "\<lparr>site_row = plant, site_Customer = acme\<rparr>"]
  from t hc have r1: "CustomerCreate 60 fresh_id (?cc, Inr retired_db) =
      (WriteJSON ?cc 200 ''Customer restored''
         (CustomerData \<lparr>cr_ID = c_ID ?crow, cr_Name = c_Name ?crow\<rparr>),
       Inr (retired_db\<lparr>customers :=
              map (\<lambda>x. if c_ID x = c_ID ?crow
                       then ?crow\<lparr>c_DeletedAt := None, c_CreatedAt := 60, c_UpdatedAt := 60\<rparr>
                       else x) (customers retired_db)\<rparr>))"
    by blast
  from t hs have r2: "SiteCreate example_env 60 fresh_id (?sc, Inr ?sdb) =
      (WriteJSON ?sc 200 ''Site restored''
         (SiteData \<lparr>sr_ID = s_ID ?srow, sr_Name = s_Name ?srow, sr_CustomerID = c_ID acme,
                     sr_CustomerName = c_Name acme\<rparr>),
       Inr (?sdb\<lparr>sites :=
              map (\<lambda>x. if s_ID x = s_ID ?srow
                       then ?srow\<lparr>s_DeletedAt := None, s_CreatedAt := 60, s_UpdatedAt := 60\<rparr>
                       else x) (sites ?sdb)\<rparr>))"
    by blast
  from t hd have r3: "DeviceCreate example_env 60 fresh_id (?dc, Inr ?ddb) =
      (WriteJSON ?dc 200 ''Device restored''
         (DeviceData (device_response
            (?drow\<lparr>d_DeletedAt := None, d_CreatedAt := 60, d_UpdatedAt := 60\<rparr>)
            acme (site_row \<lparr>site_row = plant, site_Customer = acme\<rparr>))),
       Inr (?ddb\<lparr>devices :=
              map (\<lambda>x. if d_ID x = d_ID ?drow
                       then x\<lparr>d_DeletedAt := None, d_CreatedAt := 60, d_UpdatedAt := 60\<rparr>
                       else x) (devices ?ddb)\<rparr>))"
    by blast
  have e1: "CustomerCreate 60 fresh_id (?cc, Inr retired_db) =
     (WriteJSON ?cc 200 ''Customer restored''
        (CustomerData \<lparr>cr_ID = acme_id, cr_Name = ''Acme Co''\<rparr>),
      Inr (retired_db\<lparr>customers := [acme\<lparr>c_CreatedAt := 60, c_UpdatedAt := 60\<rparr>]\<rparr>))"
    unfolding r1 by (simp add: retired_db_def acme_def)
  have e2: "SiteCreate example_env 60 fresh_id (?sc, Inr ?sdb) =
     (WriteJSON ?sc 200 ''Site restored''
        (SiteData \<lparr>sr_ID = plant_id, sr_Name = ''Plant'', sr_CustomerID = acme_id,
                    sr_CustomerName = ''Acme Co''\<rparr>),
      Inr (example_db\<lparr>sites := [plant\<lparr>s_CreatedAt := 60, s_UpdatedAt := 60\<rparr>]\<rparr>))"
    unfolding r2 by (simp add: example_db_def plant_def acme_def)
  have e3: "snd (DeviceCreate example_env 60 fresh_id (?dc, Inr ?ddb)) =
     Inr (example_db\<lparr>devices := [meter\<lparr>d_CreatedAt := 60, d_UpdatedAt := 60\<rparr>]\<rparr>)"
    unfolding r3 by (simp add: example_db_def meter_def)
  from e1 e2 e3 show ?thesis by blast
qed

text \<open>
  The spec's example scenario, through the route chains: an admin creates customer
  "Acme Co" (201, a fresh id), deletes it (200), and creates it again: 200 "Customer
  restored" with the id of the first answer.
\<close>

lemma customer_create_delete_create_scenario:
  "written (fst (run_chain [AuthMiddleware example_env 10, AdminOnlyMiddleware, CustomerCreate 10 acme_id]
      (example_request admin_token [] \<lparr>rq_Name = ''Acme Co''\<rparr>, Inr empty_db))) =
     Some \<lparr>http_status = 201,
           body_fields = [(''status'', JNum 201), (''message'', JText ''Customer created''),
             (''data'', JPayload (CustomerData \<lparr>cr_ID = acme_id, cr_Name = ''Acme Co''\<rparr>))]\<rparr> \<and>
   written (fst (run_chain [AuthMiddleware example_env 50, AdminOnlyMiddleware, CustomerDelete example_env 50]
      (example_request admin_token [(''customer_id'', acme_id)] \<lparr>rq_Name = []\<rparr>,
       Inr (empty_db\<lparr>customers := [acme]\<rparr>)))) =
     Some \<lparr>http_status = 200,
           body_fields = [(''status'', JNum 200), (''message'', JText ''Customer deleted'')]\<rparr> \<and>
   snd (run_chain [AuthMiddleware example_env 50, AdminOnlyMiddleware, CustomerDelete example_env 50]
      (example_request admin_token [(''customer_id'', acme_id)] \<lparr>rq_Name = []\<rparr>,
       Inr (empty_db\<lparr>customers := [acme]\<rparr>))) =
     Inr (empty_db\<lparr>customers := [acme\<lparr>c_DeletedAt := Some 50\<rparr>]\<rparr>) \<and>
   snd (run_chain [AuthMiddleware example_env 10, AdminOnlyMiddleware, CustomerCreate 10 acme_id]
      (example_request admin_token [] \<lparr>rq_Name = ''Acme Co''\<rparr>, Inr empty_db)) =
     Inr (empty_db\<lparr>customers := [acme]\<rparr>) \<and>
   written (fst (run_chain [AuthMiddleware example_env 60, AdminOnlyMiddleware, CustomerCreate 60 fresh_id]
      (example_request admin_token [] \<lparr>rq_Name = ''Acme Co''\<rparr>,
       Inr (empty_db\<lparr>customers := [acme\<lparr>c_DeletedAt := Some 50\<rparr>]\<rparr>)))) =
     Some \<lparr>http_status = 200,
           body_fields = [(''status'', JNum 200), (''message'', JText ''Customer restored''),
             (''data'', JPayload (CustomerData \<lparr>cr_ID = acme_id, cr_Name = ''Acme Co''\<rparr>))]\<rparr>"
  by (simp add: handler_eval_defs AdminOnlyMiddleware_def CustomerCreate_def CustomerDelete_def
      BindJSON_def FetchCustomerByName_def Create_Customer_def Save_Customer_def
      Delete_Customer_where_id_def admin_token_def empty_db_def example_defs)

lemma CustomerCreate_conflict:
  assumes body: "Bound c = Inr body" and ne: "rq_Name body \<noteq> []"
    and ex: "cu \<in> set (customers bmsDB)" "c_Name cu = rq_Name body"
    and active: "\<forall>x\<in>set (customers bmsDB). c_Name x = rq_Name body \<longrightarrow> c_DeletedAt x = None"
  shows "CustomerCreate now fresh (c, Inr bmsDB) =
           (WriteError c 400 ''Customer already exists''
              ''A customer with this name already exists'', Inr bmsDB)"
proof -
  from First_some[of cu "customers bmsDB" "\<lambda>x. c_Name x = rq_Name body" c_ID, OF ex]
  obtain r where r: "First c_ID (\<lambda>x. c_Name x = rq_Name body) (customers bmsDB) = Inr r"
    "r \<in> set (customers bmsDB)" "c_Name r = rq_Name body" by blast
  with active have "c_DeletedAt r = None" by blast
  then show ?thesis
    using ne
    by (simp add: CustomerCreate_def BindJSON_def body GetDBInstance_def GetDB_def
        FetchCustomerByName_def r(1) Let_def)
qed

lemma CustomerCreate_201_cases:
  assumes body: "Bound c = Inr body" and unwritten: "written c = None"
    and first: "written (fst (CustomerCreate now fresh (c, Inr bmsDB))) = Some r1"
    and created: "http_status r1 = 201"
  shows "rq_Name body \<noteq> [] \<and> (\<forall>x\<in>set (customers bmsDB). c_Name x \<noteq> rq_Name body) \<and>
         snd (CustomerCreate now fresh (c, Inr bmsDB)) =
           Inr (bmsDB\<lparr>customers := customers bmsDB @
                  [\<lparr>c_ID = fresh, c_Name = rq_Name body, c_CreatedAt = now, c_UpdatedAt = now,
                    c_DeletedAt = None\<rparr>]\<rparr>)"
proof (cases "rq_Name body = []")
  case True
  with first created unwritten show ?thesis
    by (auto simp add: CustomerCreate_def BindJSON_def body written_WriteError)
next
  case ne: False
  show ?thesis
  proof (cases "First c_ID (\<lambda>x. c_Name x = rq_Name body) (customers bmsDB)")
    case (Inr cu)
    show ?thesis
    proof (cases "c_DeletedAt cu = None")
      case True
      with Inr ne first created unwritten show ?thesis
        by (auto simp add: CustomerCreate_def BindJSON_def body GetDBInstance_def GetDB_def
            FetchCustomerByName_def written_WriteError Let_def)
    next
      case False
      with Inr ne first created unwritten show ?thesis
        by (auto simp add: CustomerCreate_def BindJSON_def body GetDBInstance_def GetDB_def
            FetchCustomerByName_def Save_Customer_def written_WriteJSON Let_def)
    qed
  next
    case (Inl err)
    then have nf: "err = ErrRecordNotFound" and none: "filter (\<lambda>x. c_Name x = rq_Name body) (customers bmsDB) = []"
      by (simp_all add: First_Inl_iff)
    from none have no: "\<forall>x\<in>set (customers bmsDB). c_Name x \<noteq> rq_Name body"
      by (simp add: filter_empty_conv)
    show ?thesis
    proof (cases "fresh \<in> set (map c_ID (customers bmsDB))")
      case True
      with Inl nf ne first created unwritten show ?thesis
        by (auto simp add: CustomerCreate_def BindJSON_def body GetDBInstance_def GetDB_def
            FetchCustomerByName_def Create_Customer_def written_WriteError Let_def)
    next
      case False
      with Inl nf ne no show ?thesis
        by (auto simp add: CustomerCreate_def BindJSON_def body GetDBInstance_def GetDB_def
            FetchCustomerByName_def Create_Customer_def Let_def)
    qed
  qed
qed

text \<open>
  C4. \<open>CustomerCreate\<close> with a name that an active customer carries (and no soft-deleted
  one) answers 400 "Customer already exists" and leaves the database as it was. Creating
  the same name twice in a row: whenever the first request is answered 201, the second is
  answered that 400 and changes nothing.
\<close>

theorem CustomerCreate_rejects_existing_name:
  assumes body: "Bound c = Inr body" and unwritten: "written c = None"
  shows "(rq_Name body \<noteq> [] \<and> (\<exists>cu\<in>set (customers bmsDB). c_Name cu = rq_Name body) \<and>
          (\<forall>x\<in>set (customers bmsDB). c_Name x = rq_Name body \<longrightarrow> c_DeletedAt x = None) \<longrightarrow>
          CustomerCreate now fresh (c, Inr bmsDB) =
            (WriteError c 400 ''Customer already exists''
               ''A customer with this name already exists'', Inr bmsDB)) \<and>
         (\<forall>r1. written (fst (CustomerCreate now fresh (c, Inr bmsDB))) = Some r1 \<and>
               http_status r1 = 201 \<longrightarrow>
               CustomerCreate now' fresh' (c, snd (CustomerCreate now fresh (c, Inr bmsDB))) =
                 (WriteError c 400 ''Customer already exists''
                    ''A customer with this name already exists'',
                  snd (CustomerCreate now fresh (c, Inr bmsDB)))) \<and>
         written (WriteError c 400 ''Customer already exists''
                    ''A customer with this name already exists'') =
           Some \<lparr>http_status = 400,
                 body_fields = [(''status'', JNum 400), (''message'', JText ''Customer already exists''),
                                (''error'', JText ''A customer with this name already exists'')]\<rparr>"
proof (intro conjI impI allI)
  assume h: "rq_Name body \<noteq> [] \<and> (\<exists>cu\<in>set (customers bmsDB). c_Name cu = rq_Name body) \<and>
          (\<forall>x\<in>set (customers bmsDB). c_Name x = rq_Name body \<longrightarrow> c_DeletedAt x = None)"
  then obtain cu where cu: "cu \<in> set (customers bmsDB)" "c_Name cu = rq_Name body" by blast
  from h have ne: "rq_Name body \<noteq> []"
    and active: "\<forall>x\<in>set (customers bmsDB). c_Name x = rq_Name body \<longrightarrow> c_DeletedAt x = None"
    by blast+
  show "CustomerCreate now fresh (c, Inr bmsDB) =
            (WriteError c 400 ''Customer already exists''
               ''A customer with this name already exists'', Inr bmsDB)"
    using body ne cu active by (rule CustomerCreate_conflict)
next
  fix r1
  assume h: "written (fst (CustomerCreate now fresh (c, Inr bmsDB))) = Some r1 \<and> http_status r1 = 201"
  let ?row = "\<lparr>c_ID = fresh, c_Name = rq_Name body, c_CreatedAt = now, c_UpdatedAt = now,
               c_DeletedAt = None\<rparr>"
  let ?db = "bmsDB\<lparr>customers := customers bmsDB @ [?row]\<rparr>"
  from h have h1: "written (fst (CustomerCreate now fresh (c, Inr bmsDB))) = Some r1"
    and h2: "http_status r1 = 201" by blast+
  from CustomerCreate_201_cases[OF body unwritten h1 h2]
  have ne: "rq_Name body \<noteq> []"
    and no: "\<forall>x\<in>set (customers bmsDB). c_Name x \<noteq> rq_Name body"
    and db: "snd (CustomerCreate now fresh (c, Inr bmsDB)) = Inr ?db"
    by blast+
  have m: "?row \<in> set (customers ?db)" by simp
  have n: "c_Name ?row = rq_Name body" by simp
  have a: "\<forall>x\<in>set (customers ?db). c_Name x = rq_Name body \<longrightarrow> c_DeletedAt x = None"
    using no by auto
  from CustomerCreate_conflict[OF body ne m n a, of now' fresh']
  show "CustomerCreate now' fresh' (c, snd (CustomerCreate now fresh (c, Inr bmsDB))) =
                 (WriteError c 400 ''Customer already exists''
                    ''A customer with this name already exists'',
                  snd (CustomerCreate now fresh (c, Inr bmsDB)))"
    by (simp only: db)
next
  show "written (WriteError c 400 ''Customer already exists''
                    ''A customer with this name already exists'') =
           Some \<lparr>http_status = 400,
                 body_fields = [(''status'', JNum 400), (''message'', JText ''Customer already exists''),
                                (''error'', JText ''A customer with this name already exists'')]\<rparr>"
    by (simp add: written_WriteError unwritten marshal_Response_def)
qed

theorem CustomerCreate_rejects_existing_name_witness:
  "CustomerCreate 60 fresh_id
     (example_request (Raw []) [] \<lparr>rq_Name = ''Acme Co''\<rparr>, Inr example_db) =
     (WriteError (example_request (Raw []) [] \<lparr>rq_Name = ''Acme Co''\<rparr>) 400
        ''Customer already exists'' ''A customer with this name already exists'',
      Inr example_db) \<and>
   written (fst (CustomerCreate 60 fresh_id
     (example_request (Raw []) [] \<lparr>rq_Name = ''Globex''\<rparr>, Inr example_db))) =
     Some \<lparr>http_status = 201,
           body_fields = [(''status'', JNum 201), (''message'', JText ''Customer created''),
             (''data'', JPayload (CustomerData \<lparr>cr_ID = fresh_id, cr_Name = ''Globex''\<rparr>))]\<rparr> \<and>
   written (fst (CustomerCreate 70 globex_id
     (example_request (Raw []) [] \<lparr>rq_Name = ''Globex''\<rparr>,
      snd (CustomerCreate 60 fresh_id
        (example_request (Raw []) [] \<lparr>rq_Name = ''Globex''\<rparr>, Inr example_db))))) =
     Some \<lparr>http_status = 400,
           body_fields = [(''status'', JNum 400), (''message'', JText ''Customer already exists''),
                          (''error'', JText ''A customer with this name already exists'')]\<rparr>"
proof -
  let ?c = "example_request (Raw []) [] \<lparr>rq_Name = ''Acme Co''\<rparr>"
  let ?g = "example_request (Raw []) [] \<lparr>rq_Name = ''Globex''\<rparr>"
  let ?created = "\<lparr>http_status = 201,
           body_fields = [(''status'', JNum 201), (''message'', JText ''Customer created''),
             (''data'', JPayload (CustomerData \<lparr>cr_ID = fresh_id, cr_Name = ''Globex''\<rparr>))]\<rparr>"
  have b1: "Bound ?c = Inr \<lparr>rq_Name = ''Acme Co''\<rparr>" by (simp add: example_request_def)
  have u1: "written ?c = None" by (simp add: example_request_def)
  have b2: "Bound ?g = Inr \<lparr>rq_Name = ''Globex''\<rparr>" by (simp add: example_request_def)
  have u2: "written ?g = None" by (simp add: example_request_def)
  have p1: "rq_Name \<lparr>rq_Name = ''Acme Co''\<rparr> \<noteq> [] \<and>
      (\<exists>cu\<in>set (customers example_db). c_Name cu = rq_Name \<lparr>rq_Name = ''Acme Co''\<rparr>) \<and>
      (\<forall>x\<in>set (customers example_db). c_Name x = rq_Name \<lparr>rq_Name = ''Acme Co''\<rparr> \<longrightarrow>
         c_DeletedAt x = None)"
    by (simp add: example_db_def acme_def)
  have p2: "written (fst (CustomerCreate 60 fresh_id (?g, Inr example_db))) = Some ?created \<and>
            http_status ?created = 201"
    by (simp add: CustomerCreate_def BindJSON_def GetDBInstance_def GetDB_def
        FetchCustomerByName_def First_def Create_Customer_def WriteJSON_def JSON_def
        marshal_Response_def Let_def example_defs)
  from CustomerCreate_rejects_existing_name[OF b1 u1, of example_db 60 fresh_id 70 globex_id] p1
  have r1: "CustomerCreate 60 fresh_id (?c, Inr example_db) =
     (WriteError ?c 400 ''Customer already exists'' ''A customer with this name already exists'',
      Inr example_db)"
    by blast
  from CustomerCreate_rejects_existing_name[OF b2 u2, of example_db 60 fresh_id 70 globex_id] p2
  have r2: "CustomerCreate 70 globex_id (?g, snd (CustomerCreate 60 fresh_id (?g, Inr example_db))) =
     (WriteError ?g 400 ''Customer already exists'' ''A customer with this name already exists'',
      snd (CustomerCreate 60 fresh_id (?g, Inr example_db)))"
    and r3: "written (WriteError ?g 400 ''Customer already exists''
                    ''A customer with this name already exists'') =
           Some \<lparr>http_status = 400,
                 body_fields = [(''status'', JNum 400), (''message'', JText ''Customer already exists''),
                                (''error'', JText ''A customer with this name already exists'')]\<rparr>"
    by blast+
  from r1 p2 r2 r3 show ?thesis by simp
qed

section \<open>Properties of token issuance\<close>

lemma admin_token_issued:
  assumes unwritten: "written c = None"
    and issued: "issued_token (written (fst (GenerateAdminTokenHandler e now fresh (c, inst)))) = Some tok"
  shows "GenerateJWT e now fresh ''Admin'' ''admin'' ''ADMIN'' False = Inr tok"
proof (cases "GenerateJWT e now fresh ''Admin'' ''admin'' ''ADMIN'' False")
  case (Inl err)
  with issued unwritten show ?thesis
    by (simp add: GenerateAdminTokenHandler_def issued_token_WriteError)
next
  case (Inr t)
  with issued unwritten show ?thesis
    by (simp add: GenerateAdminTokenHandler_def issued_token_WriteJSON_TokenData)
qed

lemma user_token_issued:
  assumes unwritten: "written c = None"
    and issued: "issued_token (written (fst (GenerateTokenHandler e now fresh (c, inst)))) = Some tok"
  shows "\<exists>userID username action. GenerateJWT e now userID username ''user'' action False = Inr tok"
proof (cases "Bound c")
  case (Inl err)
  with issued unwritten show ?thesis
    by (simp add: GenerateTokenHandler_def BindJSON_def issued_token_after_bind_error)
next
  case body: (Inr body)
  show ?thesis
  proof (cases "tq_CustomerID body = [] \<or> \<not> IsValidUUID e (tq_CustomerID body) \<or>
                tq_Action body = [] \<or> \<not> IsValidAction e (tq_Action body)")
    case True
    have "fst (GenerateTokenHandler e now fresh (c, inst)) =
            WriteError c 400 ''Invalid request body''
              (if tq_CustomerID body = [] then ''Customer ID field is required''
               else if \<not> IsValidUUID e (tq_CustomerID body) then ''Invalid Customer ID''
               else if tq_Action body = [] then ''Action field is required''
               else ''Action not allowed'')"
      using True by (auto simp add: GenerateTokenHandler_def BindJSON_def body)
    with issued unwritten show ?thesis
      by (simp add: issued_token_WriteError)
  next
    case ok: False
    show ?thesis
    proof (cases inst)
      case (Inl err)
      with issued unwritten body ok show ?thesis
        by (simp add: GenerateTokenHandler_def BindJSON_def GetDB_def issued_token_WriteError)
    next
      case db: (Inr bmsDB)
      show ?thesis
      proof (cases "First c_ID (\<lambda>r. c_DeletedAt r = None \<and> c_ID r = tq_CustomerID body)
                      (customers bmsDB)")
        case (Inl err)
        with issued unwritten body ok db show ?thesis
          by (simp add: GenerateTokenHandler_def BindJSON_def GetDB_def issued_token_WriteError
              split: if_splits)
      next
        case cust: (Inr customer)
        show ?thesis
        proof (cases "GenerateJWT e now (tq_CustomerID body) (c_Name customer) ''user''
                        (tq_Action body) False")
          case (Inl err)
          with issued unwritten body ok db cust show ?thesis
            by (simp add: GenerateTokenHandler_def BindJSON_def GetDB_def issued_token_WriteError)
        next
          case jwt: (Inr token)
          show ?thesis
          proof (cases "fresh \<in> set (map t_ID (auth_tokens bmsDB))")
            case True
            with issued unwritten body ok db cust jwt show ?thesis
              by (simp add: GenerateTokenHandler_def BindJSON_def GetDB_def Create_AuthToken_def
                  issued_token_WriteError)
          next
            case new: False
            let ?row = "\<lparr>t_ID = fresh, t_CustomerID = c_ID customer, t_Action = tq_Action body,
                         t_Token = token\<rparr>"
            have f: "First t_ID (\<lambda>t. t_ID t = fresh) (auth_tokens bmsDB @ [?row]) = Inr ?row"
              using new by (intro First_unique) auto
            from issued unwritten body ok db cust jwt new f have "tok = token"
              by (simp add: GenerateTokenHandler_def BindJSON_def GetDB_def Create_AuthToken_def
                  Let_def issued_token_WriteJSON_AuthTokenData)
            with jwt show ?thesis by blast
          qed
        qed
      qed
    qed
  qed
qed

text \<open>
  C10. Both issuance endpoints call \<open>GenerateJWT\<close> with the expiry flag false. The token a
  200 response of \<open>POST /admin/generate-admin-token\<close> or \<open>POST /admin/generate-token\<close>
  carries is signed with the secret, has no \<open>exp\<close> claim, and is accepted by
  \<open>ValidateJWT\<close> at every time: it is never rejected as expired.
\<close>

theorem issued_tokens_never_expire:
  "(written c = None \<and>
    issued_token (written (fst (GenerateAdminTokenHandler e now fresh (c, inst)))) = Some tok \<longrightarrow>
    (\<exists>claims. tok = Signed HS256 (JWT_SECRET e) claims \<and> lookup claims ''exp'' = VNil \<and>
       (\<forall>later. ValidateJWT e later tok = Inr claims))) \<and>
   (written c' = None \<and>
    issued_token (written (fst (GenerateTokenHandler e now fresh (c', inst)))) = Some tok' \<longrightarrow>
    (\<exists>claims. tok' = Signed HS256 (JWT_SECRET e) claims \<and> lookup claims ''exp'' = VNil \<and>
       (\<forall>later. ValidateJWT e later tok' = Inr claims)))"
proof (intro conjI impI)
  assume h: "written c = None \<and>
    issued_token (written (fst (GenerateAdminTokenHandler e now fresh (c, inst)))) = Some tok"
  then have "GenerateJWT e now fresh ''Admin'' ''admin'' ''ADMIN'' False = Inr tok"
    by (intro admin_token_issued) blast+
  from GenerateJWT_without_expiry[OF this]
  obtain claims where c: "tok = Signed HS256 (JWT_SECRET e) claims" "JWT_SECRET e \<noteq> []"
    "lookup claims ''exp'' = VNil" "lookup claims ''nbf'' = VNil" by blast
  then have "\<forall>later. ValidateJWT e later tok = Inr claims"
    by (simp add: ValidateJWT_without_expiry)
  with c show "\<exists>claims. tok = Signed HS256 (JWT_SECRET e) claims \<and> lookup claims ''exp'' = VNil \<and>
       (\<forall>later. ValidateJWT e later tok = Inr claims)" by blast
next
  assume h: "written c' = None \<and>
    issued_token (written (fst (GenerateTokenHandler e now fresh (c', inst)))) = Some tok'"
  then have "\<exists>userID username action.
      GenerateJWT e now userID username ''user'' action False = Inr tok'"
    by (intro user_token_issued) blast+
  then obtain userID username action where
    "GenerateJWT e now userID username ''user'' action False = Inr tok'" by blast
  from GenerateJWT_without_expiry[OF this]
  obtain claims where c: "tok' = Signed HS256 (JWT_SECRET e) claims" "JWT_SECRET e \<noteq> []"
    "lookup claims ''exp'' = VNil" "lookup claims ''nbf'' = VNil" by blast
  then have "\<forall>later. ValidateJWT e later tok' = Inr claims"
    by (simp add: ValidateJWT_without_expiry)
  with c show "\<exists>claims. tok' = Signed HS256 (JWT_SECRET e) claims \<and> lookup claims ''exp'' = VNil \<and>
       (\<forall>later. ValidateJWT e later tok' = Inr claims)" by blast
qed

theorem issued_tokens_never_expire_witness:
  "issued_token (written (fst (GenerateTokenHandler example_env 100 fresh_id
      (example_request (Raw []) [] \<lparr>tq_CustomerID = acme_id, tq_Action = ''READ''\<rparr>,
       Inr example_db)))) = Some (user_token 100) \<and>
   ValidateJWT example_env 100000000000 (user_token 100) = Inr (user_claims 100) \<and>
   (\<exists>tok. issued_token (written (fst (GenerateAdminTokenHandler example_env 100 fresh_id
      (example_request (Raw []) [] (), Inr example_db)))) = Some tok \<and>
      ValidateJWT example_env 100000000000 tok \<noteq> Inl ErrTokenExpired)"
proof -
  let ?cu = "example_request (Raw []) [] \<lparr>tq_CustomerID = acme_id, tq_Action = ''READ''\<rparr>"
  let ?ca = "example_request (Raw []) [] ()"
  let ?admin = "Signed HS256 ''secret''
      (marshal_Claims \<lparr>UserID = fresh_id, Username = ''Admin'', Role = ''admin'', Action = ''ADMIN'',
                       Issuer = ''Rubicon BMS'', IssuedAt = 100, ExpiresAt = None\<rparr>)"
  have name1: "IsValidString ''Acme Co''"
    by (simp add: IsValidString_def in_name_class_def)
  have name2: "IsValidString ''Admin''"
    by (simp add: IsValidString_def in_name_class_def)
  have u: "fst (GenerateTokenHandler example_env 100 fresh_id (?cu, Inr example_db)) =
      WriteJSON ?cu 200 ''Token generated successfully''
        (AuthTokenData \<lparr>t_ID = fresh_id, t_CustomerID = acme_id, t_Action = ''READ'',
                         t_Token = user_token 100\<rparr> acme)"
    using name1
    by (simp add: GenerateTokenHandler_def BindJSON_def GetDB_def IsValidUUID_def IsValidAction_def
        IsValidRole_def First_def GenerateJWT_def Create_AuthToken_def preload_Customer_def
        Let_def example_defs)
  have wu: "written ?cu = None" by (simp add: example_request_def)
  have iu: "issued_token (written (fst (GenerateTokenHandler example_env 100 fresh_id
      (?cu, Inr example_db)))) = Some (user_token 100)"
    unfolding u by (simp add: issued_token_WriteJSON_AuthTokenData wu)
  have a: "fst (GenerateAdminTokenHandler example_env 100 fresh_id (?ca, Inr example_db)) =
      WriteJSON ?ca 200 ''Token generated successfully'' (TokenData ?admin)"
    using name2
    by (simp add: GenerateAdminTokenHandler_def GenerateJWT_def IsValidUUID_def IsValidAction_def
        IsValidRole_def Let_def example_defs)
  have wa: "written ?ca = None" by (simp add: example_request_def)
  have ia: "issued_token (written (fst (GenerateAdminTokenHandler example_env 100 fresh_id
      (?ca, Inr example_db)))) = Some ?admin"
    unfolding a by (simp add: issued_token_WriteJSON_TokenData wa)
  note t = issued_tokens_never_expire[of ?ca example_env 100 fresh_id "Inr example_db" ?admin
      ?cu "user_token 100"]
  from t wa ia obtain ca where
    "?admin = Signed HS256 (JWT_SECRET example_env) ca"
    "\<forall>later. ValidateJWT example_env later ?admin = Inr ca"
    by blast
  then have va: "ValidateJWT example_env 100000000000 ?admin \<noteq> Inl ErrTokenExpired" by simp
  from t wu iu obtain cl where
    cl: "user_token 100 = Signed HS256 (JWT_SECRET example_env) cl"
    "\<forall>later. ValidateJWT example_env later (user_token 100) = Inr cl"
    by blast
  from cl(1) have "cl = user_claims 100" by (simp add: user_token_def)
  with cl(2) have vu: "ValidateJWT example_env 100000000000 (user_token 100) = Inr (user_claims 100)"
    by simp
  from iu vu ia va show ?thesis by blast
qed

end
